theory Spec2Isabelle
  imports Main "HOL-Library.Word" "HOL-Library.Multiset" "HOL-Library.AList"
begin

section \<open>The roller repository: rotation and retention of log files\<close>

text \<open>
  The repository holds two engines. \<open>LumberjackRoller\<close> (lumberjack_roller.go) selects
  its rotation trigger by a strategy enumeration and carries its own retention pass
  (\<open>millRunOnce\<close>, \<open>oldLogFiles\<close>, \<open>compressLogFile\<close>). \<open>Roller\<close> (roller.go) composes a
  size and a duration predicate (\<open>isRotate\<close>) and delegates retention to an external
  library. Both are embedded below, function by function, over an explicit model of
  the pieces of the Go runtime they call: strings, file paths, the clock, and a
  directory of files whose system calls can fail.
\<close>

subsection \<open>Go strings and file paths\<close>

text \<open>A Go string or byte slice is a list of bytes; \<open>char\<close> is a byte.\<close>

type_synonym bytes = string

text \<open>\<open>strings.HasPrefix\<close>, \<open>strings.HasSuffix\<close> and \<open>strings.TrimSuffix\<close>.\<close>

definition HasPrefix :: "string \<Rightarrow> string \<Rightarrow> bool" where
  "HasPrefix s p = (length p \<le> length s \<and> take (length p) s = p)"

definition HasSuffix :: "string \<Rightarrow> string \<Rightarrow> bool" where
  "HasSuffix s x = (length x \<le> length s \<and> drop (length s - length x) s = x)"

definition TrimSuffix :: "string \<Rightarrow> string \<Rightarrow> string" where
  "TrimSuffix s x = (if HasSuffix s x then take (length s - length x) s else s)"

text \<open>
  \<open>filepath.Base\<close> and \<open>filepath.Ext\<close> on a Unix path. \<open>Base\<close> strips trailing
  separators and returns the last element (\<open>.\<close> for the empty path, \<open>/\<close> for a path of
  separators only); \<open>Ext\<close> is the suffix starting at the last dot of the last element,
  empty when that element has no dot.
\<close>

definition IsPathSeparator :: "char \<Rightarrow> bool" where
  "IsPathSeparator c = (c = CHR ''/'')"

definition Base :: "string \<Rightarrow> string" where
  "Base path =
     (if path = [] then ''.''
      else let stripped = rev (dropWhile IsPathSeparator (rev path));
               element = rev (takeWhile (\<lambda>c. \<not> IsPathSeparator c) (rev stripped))
           in if element = [] then ''/'' else element)"

definition Ext :: "string \<Rightarrow> string" where
  "Ext path =
     (let tail = takeWhile (\<lambda>c. \<not> IsPathSeparator c) (rev path)
      in if CHR ''.'' \<in> set tail
         then CHR ''.'' # rev (takeWhile (\<lambda>c. c \<noteq> CHR ''.'') tail)
         else [])"

subsection \<open>Go time values\<close>

text \<open>
  A \<open>time.Time\<close> is an instant together with a location. The instant is counted in
  nanoseconds since the Unix epoch; the location is reduced to its offset from UTC in
  seconds at that instant (what \<open>time.FixedZone\<close> builds, and what any location amounts
  to for one reading of the clock).
\<close>

record gotime =
  unixnano :: int
  zoneoff :: int

definition In :: "gotime \<Rightarrow> int \<Rightarrow> gotime" where
  "In t l = t\<lparr>zoneoff := l\<rparr>"

definition After :: "gotime \<Rightarrow> gotime \<Rightarrow> bool" where
  "After t u = (unixnano t > unixnano u)"

definition Before :: "gotime \<Rightarrow> gotime \<Rightarrow> bool" where
  "Before t u = (unixnano t < unixnano u)"

definition Add :: "gotime \<Rightarrow> int \<Rightarrow> gotime" where
  "Add t d = t\<lparr>unixnano := unixnano t + d\<rparr>"

subsection \<open>The default timestamp layout\<close>

text \<open>
  \<open>DefaultBackupTimeFormat\<close> of roller.go. What Go's \<open>Time.Format\<close> and \<open>time.Parse\<close> do
  with this one layout is written out below: the civil date of an instant in its
  location, fixed-width decimal fields, and the parser's field rules (a four-digit
  year, two-digit month, day, minute and second, a one- or two-digit hour, a separator
  and three digits of fractional second, range checks, no trailing text). A parsed time
  carries no zone and is returned in UTC.
\<close>

definition DefaultBackupTimeFormat :: string where
  "DefaultBackupTimeFormat = ''2006-01-02T15-04-05.000''"

definition DefaultCompressSuffix :: string where
  "DefaultCompressSuffix = ''.gz''"

definition digit :: "nat \<Rightarrow> char" where
  "digit d = char_of (48 + d)"

fun utoa :: "nat \<Rightarrow> string" where
  "utoa n = (if n < 10 then [digit n] else utoa (n div 10) @ [digit (n mod 10)])"

declare utoa.simps [simp del]

definition appendInt :: "int \<Rightarrow> nat \<Rightarrow> string" where
  "appendInt x width =
     (let ds = utoa (nat \<bar>x\<bar>)
      in (if x < 0 then ''-'' else []) @ replicate (width - length ds) CHR ''0'' @ ds)"

text \<open>Days since the epoch to year, month, day and back (proleptic Gregorian calendar).\<close>

definition civil_from_days :: "int \<Rightarrow> int \<times> int \<times> int" where
  "civil_from_days z0 =
     (let z = z0 + 719468;
          era = z div 146097;
          doe = z mod 146097;
          yoe = (doe - doe div 1460 + doe div 36524 - doe div 146096) div 365;
          doy = doe - (365 * yoe + yoe div 4 - yoe div 100);
          mp = (5 * doy + 2) div 153;
          d = doy - (153 * mp + 2) div 5 + 1;
          m = (if mp < 10 then mp + 3 else mp - 9);
          y = yoe + era * 400 + (if m \<le> 2 then 1 else 0)
      in (y, m, d))"

definition days_from_civil :: "int \<Rightarrow> int \<Rightarrow> int \<Rightarrow> int" where
  "days_from_civil y0 m d =
     (let y = (if m \<le> 2 then y0 - 1 else y0);
          era = y div 400;
          yoe = y mod 400;
          doy = (153 * (if m > 2 then m - 3 else m + 9) + 2) div 5 + d - 1;
          doe = yoe * 365 + yoe div 4 - yoe div 100 + doy
      in era * 146097 + doe - 719468)"

definition format_default :: "gotime \<Rightarrow> string" where
  "format_default t =
     (let abs = unixnano t + zoneoff t * 1000000000;
          sec = abs div 1000000000;
          nsec = abs mod 1000000000;
          sod = sec mod 86400;
          (y, m, d) = civil_from_days (sec div 86400)
      in appendInt y 4 @ ''-'' @ appendInt m 2 @ ''-'' @ appendInt d 2 @ ''T''
         @ appendInt (sod div 3600) 2 @ ''-'' @ appendInt (sod mod 3600 div 60) 2
         @ ''-'' @ appendInt (sod mod 60) 2 @ ''.'' @ appendInt (nsec div 1000000) 3)"

definition isDigit :: "char \<Rightarrow> bool" where
  "isDigit c = ((48::nat) \<le> of_char c \<and> of_char c \<le> (57::nat))"

definition digitVal :: "char \<Rightarrow> int" where
  "digitVal c = int (of_char c) - 48"

fun leadingInt :: "int \<Rightarrow> string \<Rightarrow> int \<times> string" where
  "leadingInt acc [] = (acc, [])"
| "leadingInt acc (c # cs) =
     (if isDigit c then leadingInt (acc * 10 + digitVal c) cs else (acc, c # cs))"

definition atoi :: "string \<Rightarrow> int option" where
  "atoi s =
     (let neg = (s \<noteq> [] \<and> hd s = CHR ''-'');
          s1 = (if s \<noteq> [] \<and> (hd s = CHR ''-'' \<or> hd s = CHR ''+'') then tl s else s);
          (q, rem) = leadingInt 0 s1
      in if rem \<noteq> [] then None else Some (if neg then - q else q))"

fun getnum :: "string \<Rightarrow> bool \<Rightarrow> (int \<times> string) option" where
  "getnum [] fixed = None"
| "getnum [c] fixed =
     (if \<not> isDigit c \<or> fixed then None else Some (digitVal c, []))"
| "getnum (c # d # r) fixed =
     (if \<not> isDigit c then None
      else if \<not> isDigit d then (if fixed then None else Some (digitVal c, d # r))
      else Some (digitVal c * 10 + digitVal d, r))"

fun skip :: "string \<Rightarrow> char \<Rightarrow> string option" where
  "skip [] p = None"
| "skip (c # r) p = (if c = p then Some r else None)"

definition isLeap :: "int \<Rightarrow> bool" where
  "isLeap y = (y mod 4 = 0 \<and> (y mod 100 \<noteq> 0 \<or> y mod 400 = 0))"

definition daysIn :: "int \<Rightarrow> int \<Rightarrow> int" where
  "daysIn m y =
     (if m = 2 then (if isLeap y then 29 else 28)
      else if m \<in> {4, 6, 9, 11} then 30 else 31)"

definition Date :: "int \<Rightarrow> int \<Rightarrow> int \<Rightarrow> int \<Rightarrow> int \<Rightarrow> int \<Rightarrow> int \<Rightarrow> gotime" where
  "Date y m d hh mm ss ns =
     \<lparr>unixnano = (days_from_civil y m d * 86400 + hh * 3600 + mm * 60 + ss) * 1000000000 + ns,
      zoneoff = 0\<rparr>"

text \<open>The steps of the parser: the year, a separator followed by a number, the fraction.\<close>

definition parse_year :: "string \<Rightarrow> (int \<times> string) option" where
  "parse_year v =
     (if length v < 4 \<or> \<not> isDigit (hd v) then None
      else map_option (\<lambda>y. (y, drop 4 v)) (atoi (take 4 v)))"

definition parse_field :: "char \<Rightarrow> bool \<Rightarrow> int \<Rightarrow> int \<Rightarrow> string \<Rightarrow> (int \<times> string) option" where
  "parse_field sep fixed lo hi v =
     Option.bind (skip v sep) (\<lambda>v'.
     Option.bind (getnum v' fixed) (\<lambda>(n, r).
       if n < lo \<or> hi < n then None else Some (n, r)))"

definition parse_frac :: "string \<Rightarrow> int option" where
  "parse_frac v =
     (if length v < 4 then None
      else if hd v \<noteq> CHR ''.'' \<and> hd v \<noteq> CHR '','' then None
      else Option.bind (atoi (take 3 (tl v))) (\<lambda>ms.
        if ms < 0 then None
        else if drop 4 v \<noteq> [] then None
        else Some (ms * 1000000)))"

definition parse_default :: "string \<Rightarrow> gotime option" where
  "parse_default v0 =
     Option.bind (parse_year v0) (\<lambda>(y, v1).
     Option.bind (parse_field CHR ''-'' True 1 12 v1) (\<lambda>(m, v2).
     Option.bind (parse_field CHR ''-'' True 0 99 v2) (\<lambda>(d, v3).
     Option.bind (parse_field CHR ''T'' False 0 23 v3) (\<lambda>(hh, v4).
     Option.bind (parse_field CHR ''-'' True 0 59 v4) (\<lambda>(mm, v5).
     Option.bind (parse_field CHR ''-'' True 0 59 v5) (\<lambda>(ss, v6).
     Option.bind (parse_frac v6) (\<lambda>ns.
       if d < 1 \<or> d > daysIn m y then None
       else Some (Date y m d hh mm ss ns))))))))"

subsection \<open>The Go environment: library calls, files, system calls, errors\<close>

text \<open>
  The timestamp layout is a configuration string, and Go's \<open>time\<close> package interprets
  it. The engine is embedded over an environment that supplies \<open>Time.Format\<close> and
  \<open>time.Parse\<close> for any layout, the gzip stream of a file (its body, and the trailer
  that closing the gzip writer appends), and the name \<open>newFilename\<close> falls back to when
  no file name is configured. \<open>stdenv\<close> is the environment of a configuration that
  keeps the default layout.
\<close>

record goenv =
  time_Format :: "string \<Rightarrow> gotime \<Rightarrow> string"
  time_Parse :: "string \<Rightarrow> string \<Rightarrow> gotime option"
  gzbody :: "bytes \<Rightarrow> bytes"
  gztrailer :: "bytes \<Rightarrow> bytes"
  tempLogName :: string

definition stdenv :: goenv where
  "stdenv = \<lparr>time_Format = (\<lambda>layout. format_default),
             time_Parse = (\<lambda>layout. parse_default),
             gzbody = (\<lambda>d. ''gz:'' @ d),
             gztrailer = (\<lambda>d. '':'' @ utoa (length d)),
             tempLogName = ''/tmp/roller-lumberjack.log''\<rparr>"

text \<open>
  The log directory is an association list from entry names to nodes. A path the
  engine builds with \<open>filepath.Join(r.dir(), name)\<close> is represented by \<open>name\<close>, and the
  canonical file by \<open>filepath.Base\<close> of its path. A regular file has its bytes and its
  permission bits.
\<close>

datatype node = RegFile bytes nat | SubDir nat

fun FileInfo_IsDir :: "node \<Rightarrow> bool" where
  "FileInfo_IsDir (SubDir m) = True"
| "FileInfo_IsDir (RegFile c m) = False"

fun FileInfo_Size :: "node \<Rightarrow> int" where
  "FileInfo_Size (RegFile c m) = int (length c)"
| "FileInfo_Size (SubDir m) = 4096"

fun FileInfo_Mode :: "node \<Rightarrow> nat" where
  "FileInfo_Mode (RegFile c m) = m"
| "FileInfo_Mode (SubDir m) = m"

type_synonym directory = "(string \<times> node) list"

text \<open>
  Every system call is recorded in the world's trace, in order. A call fails when the
  fault predicate says so (any reason outside the model: permissions, a full disk, a
  closed descriptor) or when the directory itself rules it out (a missing entry).
\<close>

datatype osop =
    OpMkdirAll
  | OpStat string
  | OpRename string string
  | OpChown string
  | OpOpenFile string
  | OpOpen string
  | OpWrite string nat
  | OpClose string
  | OpCopy string string
  | OpGzClose string
  | OpRemove string
  | OpReadDir
  | OpFileStat string

type_synonym faults = "osop \<Rightarrow> bool"

datatype error =
    ErrWriteTooLong
  | ErrInvalid
  | ErrNotExist string
  | ErrParse
  | OsError osop
  | NewError string
  | Errorf string "int list" error

fun errors_Is :: "error \<Rightarrow> error \<Rightarrow> bool" where
  "errors_Is (Errorf f a e) t = (Errorf f a e = t \<or> errors_Is e t)"
| "errors_Is e t = (e = t)"

fun IsNotExist :: "error \<Rightarrow> bool" where
  "IsNotExist (ErrNotExist n) = True"
| "IsNotExist e = False"

record world =
  dir :: directory
  now :: gotime
  trace :: "osop list"

definition syscall :: "osop \<Rightarrow> world \<Rightarrow> world" where
  "syscall op w = w\<lparr>trace := trace w @ [op]\<rparr>"

definition MkdirAll :: "faults \<Rightarrow> world \<Rightarrow> error option \<times> world" where
  "MkdirAll flt w =
     ((if flt OpMkdirAll then Some (OsError OpMkdirAll) else None), syscall OpMkdirAll w)"

definition osStat :: "faults \<Rightarrow> string \<Rightarrow> world \<Rightarrow> (error + node) \<times> world" where
  "osStat flt name w =
     ((if flt (OpStat name) then Inl (OsError (OpStat name))
       else case map_of (dir w) name of
              None \<Rightarrow> Inl (ErrNotExist name)
            | Some n \<Rightarrow> Inr n),
      syscall (OpStat name) w)"

definition Rename :: "faults \<Rightarrow> string \<Rightarrow> string \<Rightarrow> world \<Rightarrow> error option \<times> world" where
  "Rename flt name newname w =
     (let w' = syscall (OpRename name newname) w
      in if flt (OpRename name newname) then (Some (OsError (OpRename name newname)), w')
         else case map_of (dir w) name of
                None \<Rightarrow> (Some (ErrNotExist name), w')
              | Some n \<Rightarrow>
                  (None, w'\<lparr>dir := AList.update newname n (AList.delete name (dir w))\<rparr>))"

definition Remove :: "faults \<Rightarrow> string \<Rightarrow> world \<Rightarrow> error option \<times> world" where
  "Remove flt name w =
     (let w' = syscall (OpRemove name) w
      in if flt (OpRemove name) then (Some (OsError (OpRemove name)), w')
         else case map_of (dir w) name of
                None \<Rightarrow> (Some (ErrNotExist name), w')
              | Some n \<Rightarrow> (None, w'\<lparr>dir := AList.delete name (dir w)\<rparr>))"

text \<open>
  \<open>os.OpenFile\<close> with \<open>O_CREATE|O_WRONLY|O_TRUNC\<close>: an existing regular file is emptied
  and keeps its mode, a missing one is created with the mode given; a directory cannot
  be opened for writing. The handle returned is the name of the entry.
\<close>

definition OpenFile_trunc :: "faults \<Rightarrow> string \<Rightarrow> nat \<Rightarrow> world \<Rightarrow> (error + string) \<times> world" where
  "OpenFile_trunc flt name mode w =
     (let w' = syscall (OpOpenFile name) w
      in if flt (OpOpenFile name) then (Inl (OsError (OpOpenFile name)), w')
         else case map_of (dir w) name of
                None \<Rightarrow> (Inr name, w'\<lparr>dir := AList.update name (RegFile [] mode) (dir w)\<rparr>)
              | Some (RegFile c m) \<Rightarrow>
                  (Inr name, w'\<lparr>dir := AList.update name (RegFile [] m) (dir w)\<rparr>)
              | Some (SubDir m) \<Rightarrow> (Inl (OsError (OpOpenFile name)), w'))"

text \<open>\<open>os.OpenFile\<close> with \<open>O_APPEND|O_WRONLY\<close>: the entry must exist and be a file.\<close>

definition OpenFile_append :: "faults \<Rightarrow> string \<Rightarrow> world \<Rightarrow> (error + string) \<times> world" where
  "OpenFile_append flt name w =
     (let w' = syscall (OpOpenFile name) w
      in if flt (OpOpenFile name) then (Inl (OsError (OpOpenFile name)), w')
         else case map_of (dir w) name of
                None \<Rightarrow> (Inl (ErrNotExist name), w')
              | Some (RegFile c m) \<Rightarrow> (Inr name, w')
              | Some (SubDir m) \<Rightarrow> (Inl (OsError (OpOpenFile name)), w'))"

text \<open>
  \<open>(*os.File).Write\<close>. A nil file returns \<open>os.ErrInvalid\<close> and writes nothing, without a
  system call. A failing write is taken to write no byte. A successful one appends to
  the entry the handle was opened on.
\<close>

definition append_bytes :: "string \<Rightarrow> bytes \<Rightarrow> directory \<Rightarrow> directory" where
  "append_bytes h p d =
     (case map_of d h of
        Some (RegFile c m) \<Rightarrow> AList.update h (RegFile (c @ p) m) d
      | _ \<Rightarrow> d)"

definition File_Write :: "faults \<Rightarrow> string option \<Rightarrow> bytes \<Rightarrow> world \<Rightarrow> (int \<times> error option) \<times> world" where
  "File_Write flt f p w =
     (case f of
        None \<Rightarrow> ((0, Some ErrInvalid), w)
      | Some h \<Rightarrow>
          (let w' = syscall (OpWrite h (length p)) w
           in if flt (OpWrite h (length p)) then ((0, Some (OsError (OpWrite h (length p)))), w')
              else ((int (length p), None), w'\<lparr>dir := append_bytes h p (dir w)\<rparr>)))"

definition File_Close :: "faults \<Rightarrow> string \<Rightarrow> world \<Rightarrow> error option \<times> world" where
  "File_Close flt h w =
     ((if flt (OpClose h) then Some (OsError (OpClose h)) else None), syscall (OpClose h) w)"

text \<open>
  Modelled from the spec: \<open>chown\<close>, whose source file is not part of the repository
  files at hand. The spec has it preserve the ownership of the old file on the new one
  "where resolvable", and the call site calls it a no-op anywhere but Linux: it can
  fail, and it changes nothing the directory model records.
\<close>

definition chown :: "faults \<Rightarrow> string \<Rightarrow> node \<Rightarrow> world \<Rightarrow> error option \<times> world" where
  "chown flt name info w =
     ((if flt (OpChown name) then Some (OsError (OpChown name)) else None),
      syscall (OpChown name) w)"

subsection \<open>LumberjackRoller: options and state\<close>

text \<open>\<open>RotateStrategy\<close> is an \<open>int32\<close> with two named values (roller.go).\<close>

type_synonym RotateStrategy = "32 word"

definition SizeRotateStrategy :: RotateStrategy where
  "SizeRotateStrategy = 0"

definition DirectRotateStrategy :: RotateStrategy where
  "DirectRotateStrategy = 1"

text \<open>
  \<open>Options\<close> of options.go. Sizes and counts are \<open>int\<close>: they are compared with and
  added to lengths of byte slices and files, far below the range of \<open>int64\<close>.
  \<open>FileMaxAge\<close> is a duration in nanoseconds, \<open>BackupTimeLocation\<close> the location's
  offset from UTC in seconds.
\<close>

record Options =
  FileName :: string
  FileMaxAge :: int
  FileMaxCount :: int
  MaxSize :: int
  RotateStrategy :: RotateStrategy
  FileMaxSize :: int
  Compress :: bool
  CompressSuffix :: string
  BackupTimeFormat :: string
  BackupTimeLocation :: int

text \<open>
  The struct \<open>LumberjackRoller\<close>: \<open>file'\<close> is \<open>None\<close> for a nil \<open>*os.File\<close>; \<open>millCh\<close> says
  whether a signal is waiting in the one-slot channel of the retention worker.
\<close>

record LumberjackRoller =
  opts :: Options
  size' :: int
  file' :: "string option"
  millCh :: bool

definition newFilename :: "goenv \<Rightarrow> LumberjackRoller \<Rightarrow> string" where
  "newFilename env r =
     (if FileName (opts r) \<noteq> [] then FileName (opts r) else tempLogName env)"

text \<open>The directory entry of the canonical file.\<close>

definition canonical :: "goenv \<Rightarrow> LumberjackRoller \<Rightarrow> string" where
  "canonical env r = Base (newFilename env r)"

subsection \<open>LumberjackRoller: close, openNew, rotate, Write\<close>

definition mill :: "LumberjackRoller \<Rightarrow> LumberjackRoller" where
  "mill r = r\<lparr>millCh := True\<rparr>"

definition close :: "faults \<Rightarrow> LumberjackRoller \<Rightarrow> world \<Rightarrow> error option \<times> LumberjackRoller \<times> world" where
  "close flt r w =
     (case file' r of
        None \<Rightarrow> (None, r, w)
      | Some h \<Rightarrow> (let (err, w') = File_Close flt h w in (err, r\<lparr>file' := None\<rparr>, w')))"

definition backupName :: "goenv \<Rightarrow> LumberjackRoller \<Rightarrow> string \<Rightarrow> int \<Rightarrow> world \<Rightarrow> string" where
  "backupName env r name l w =
     (let filename = Base name;
          ext = Ext filename;
          prefix = take (length filename - length ext) filename;
          t = In (now w) l;
          timestamp = time_Format env (BackupTimeFormat (opts r)) t
      in prefix @ ''-'' @ timestamp @ ext)"

text \<open>The tail of \<open>openNew\<close>: truncate-create the canonical file and take it as active.\<close>

definition openNew_create ::
  "faults \<Rightarrow> LumberjackRoller \<Rightarrow> string \<Rightarrow> nat \<Rightarrow> world \<Rightarrow> error option \<times> LumberjackRoller \<times> world" where
  "openNew_create flt r name mode w =
     (case OpenFile_trunc flt name mode w of
        (Inl e, w') \<Rightarrow> (Some (Errorf ''can't open new logfile: %w'' [] e), r, w')
      | (Inr f, w') \<Rightarrow> (None, r\<lparr>file' := Some f, size' := 0\<rparr>, w'))"

text \<open>The branch of \<open>openNew\<close> taken when the canonical file exists: move it aside.\<close>

definition openNew_move ::
  "goenv \<Rightarrow> faults \<Rightarrow> LumberjackRoller \<Rightarrow> string \<Rightarrow> node \<Rightarrow> world
     \<Rightarrow> error option \<times> LumberjackRoller \<times> world" where
  "openNew_move env flt r name info w =
     (let newname = backupName env r (newFilename env r) (BackupTimeLocation (opts r)) w;
          (err, w1) = Rename flt name newname w
      in case err of
           Some e \<Rightarrow> (Some (Errorf ''can't rename log file: %w'' [] e), r, w1)
         | None \<Rightarrow>
             (let (err2, w2) = chown flt name info w1
              in case err2 of
                   Some e \<Rightarrow> (Some e, r, w2)
                 | None \<Rightarrow> openNew_create flt r name (FileInfo_Mode info) w2))"

definition openNew ::
  "goenv \<Rightarrow> faults \<Rightarrow> LumberjackRoller \<Rightarrow> world \<Rightarrow> error option \<times> LumberjackRoller \<times> world" where
  "openNew env flt r w =
     (let (err, w1) = MkdirAll flt w
      in case err of
           Some e \<Rightarrow> (Some (Errorf ''can't make directories for new logfile: %w'' [] e), r, w1)
         | None \<Rightarrow>
             (let name = canonical env r;
                  (st, w2) = osStat flt name w1
              in case st of
                   Inr info \<Rightarrow> openNew_move env flt r name info w2
                 | Inl e \<Rightarrow> openNew_create flt r name 384 w2))"

definition rotate ::
  "goenv \<Rightarrow> faults \<Rightarrow> LumberjackRoller \<Rightarrow> world \<Rightarrow> error option \<times> LumberjackRoller \<times> world" where
  "rotate env flt r w =
     (let (err, r1, w1) = close flt r w
      in case err of
           Some e \<Rightarrow> (Some e, r1, w1)
         | None \<Rightarrow>
             (let (err2, r2, w2) = openNew env flt r1 w1
              in case err2 of
                   Some e \<Rightarrow> (Some e, r2, w2)
                 | None \<Rightarrow> (None, mill r2, w2)))"

text \<open>\<open>n, err = r.file.Write(p); r.size += int64(n)\<close>, shared by both strategies.\<close>

definition write_file ::
  "faults \<Rightarrow> LumberjackRoller \<Rightarrow> bytes \<Rightarrow> world \<Rightarrow> (int \<times> error option) \<times> LumberjackRoller \<times> world" where
  "write_file flt r p w =
     (let ((n, err), w') = File_Write flt (file' r) p w
      in ((n, err), r\<lparr>size' := size' r + n\<rparr>, w'))"

definition Write_size ::
  "goenv \<Rightarrow> faults \<Rightarrow> LumberjackRoller \<Rightarrow> bytes \<Rightarrow> world
     \<Rightarrow> (int \<times> error option) \<times> LumberjackRoller \<times> world" where
  "Write_size env flt r p w =
     (if size' r + int (length p) > FileMaxSize (opts r)
      then (case rotate env flt r w of
              (Some e, r1, w1) \<Rightarrow> ((0, Some e), r1, w1)
            | (None, r1, w1) \<Rightarrow> write_file flt r1 p w1)
      else write_file flt r p w)"

definition Write_direct ::
  "goenv \<Rightarrow> faults \<Rightarrow> LumberjackRoller \<Rightarrow> bytes \<Rightarrow> world
     \<Rightarrow> (int \<times> error option) \<times> LumberjackRoller \<times> world" where
  "Write_direct env flt r p w =
     (let ((n, err), r1, w1) = write_file flt r p w
      in case rotate env flt r1 w1 of
           (Some e, r2, w2) \<Rightarrow> ((0, Some e), r2, w2)
         | (None, r2, w2) \<Rightarrow> ((n, err), r2, w2))"

text \<open>
  \<open>LumberjackRoller.Write\<close>. The \<open>switch\<close> has no default case: under a strategy value
  that is neither constant nothing is written and \<open>(0, nil)\<close> is returned.
\<close>

definition Write ::
  "goenv \<Rightarrow> faults \<Rightarrow> LumberjackRoller \<Rightarrow> bytes \<Rightarrow> world
     \<Rightarrow> (int \<times> error option) \<times> LumberjackRoller \<times> world" where
  "Write env flt r p w =
     (let writeLen = int (length p)
      in if FileMaxSize (opts r) > 0 \<and> writeLen > FileMaxSize (opts r)
         then ((0, Some (Errorf ''write length %d, max size %d: %w''
                           [writeLen, FileMaxSize (opts r)] ErrWriteTooLong)), r, w)
         else if RotateStrategy (opts r) = SizeRotateStrategy then Write_size env flt r p w
         else if RotateStrategy (opts r) = DirectRotateStrategy then Write_direct env flt r p w
         else ((0, None), r, w))"

definition Close :: "faults \<Rightarrow> LumberjackRoller \<Rightarrow> world \<Rightarrow> error option \<times> LumberjackRoller \<times> world" where
  "Close flt r w = close flt r w"

definition Rotate ::
  "goenv \<Rightarrow> faults \<Rightarrow> LumberjackRoller \<Rightarrow> world \<Rightarrow> error option \<times> LumberjackRoller \<times> world" where
  "Rotate env flt r w = rotate env flt r w"

subsection \<open>LumberjackRoller: construction\<close>




text \<open>\<open>NewOptions\<close> before any option is applied (options.go).\<close>

definition NewOptions :: "int \<Rightarrow> Options" where
  "NewOptions local =
     \<lparr>FileName = [], FileMaxAge = 0, FileMaxCount = 0, MaxSize = 0,
      RotateStrategy = SizeRotateStrategy, FileMaxSize = 0, Compress = False,
      CompressSuffix = DefaultCompressSuffix, BackupTimeFormat = DefaultBackupTimeFormat,
      BackupTimeLocation = local\<rparr>"

subsection \<open>LumberjackRoller: the backup catalog\<close>

text \<open>
  A Go call either returns or panics. \<open>timeFromName\<close> slices the file name between the
  prefix and the extension; Go panics on a slice whose lower bound exceeds its upper
  bound, which happens when the prefix and the extension overlap in the name.
\<close>

datatype 'a exec = Returns 'a | Panics string

definition prefixAndExt :: "goenv \<Rightarrow> LumberjackRoller \<Rightarrow> string \<times> string" where
  "prefixAndExt env r =
     (let filename = Base (newFilename env r);
          ext = Ext filename;
          prefix = take (length filename - length ext) filename @ ''-''
      in (prefix, ext))"

definition timeFromName ::
  "goenv \<Rightarrow> LumberjackRoller \<Rightarrow> string \<Rightarrow> string \<Rightarrow> string \<Rightarrow> (error + gotime) exec" where
  "timeFromName env r filename prefix ext =
     (if \<not> HasPrefix filename prefix then Returns (Inl (NewError ''mismatched prefix''))
      else if \<not> HasSuffix filename ext then Returns (Inl (NewError ''mismatched extension''))
      else if length filename - length ext < length prefix
      then Panics ''slice bounds out of range''
      else let ts = drop (length prefix) (take (length filename - length ext) filename)
           in case time_Parse env (BackupTimeFormat (opts r)) ts of
                None \<Rightarrow> Returns (Inl ErrParse)
              | Some t \<Rightarrow> Returns (Inr t))"

record logInfo =
  timestamp :: gotime
  Name :: string
  FileInfo :: node

text \<open>
  \<open>sort.Sort\<close> with \<open>byFormatTime.Less\<close>. Go's sort is not stable; the embedding sorts by
  insertion, and only the order of entries with different timestamps is relied on.
\<close>

definition byFormatTime_Less :: "logInfo \<Rightarrow> logInfo \<Rightarrow> bool" where
  "byFormatTime_Less a b = After (timestamp a) (timestamp b)"

fun sort_insert :: "logInfo \<Rightarrow> logInfo list \<Rightarrow> logInfo list" where
  "sort_insert x [] = [x]"
| "sort_insert x (y # ys) =
     (if byFormatTime_Less y x then y # sort_insert x ys else x # y # ys)"

definition sort_Sort :: "logInfo list \<Rightarrow> logInfo list" where
  "sort_Sort xs = foldr sort_insert xs []"

text \<open>One iteration of the loop of \<open>oldLogFiles\<close>: what an entry adds to \<open>logFiles\<close>.\<close>

definition scanEntry ::
  "goenv \<Rightarrow> LumberjackRoller \<Rightarrow> string \<Rightarrow> string \<Rightarrow> string \<times> node \<Rightarrow> logInfo list exec" where
  "scanEntry env r prefix ext e =
     (if FileInfo_IsDir (snd e) then Returns []
      else case timeFromName env r (fst e) prefix ext of
             Panics m \<Rightarrow> Panics m
           | Returns (Inr t) \<Rightarrow> Returns [\<lparr>timestamp = t, Name = fst e, FileInfo = snd e\<rparr>]
           | Returns (Inl err) \<Rightarrow>
               (case timeFromName env r (fst e) prefix (ext @ CompressSuffix (opts r)) of
                  Panics m \<Rightarrow> Panics m
                | Returns (Inr t) \<Rightarrow> Returns [\<lparr>timestamp = t, Name = fst e, FileInfo = snd e\<rparr>]
                | Returns (Inl err2) \<Rightarrow> Returns []))"

fun scanEntries ::
  "goenv \<Rightarrow> LumberjackRoller \<Rightarrow> string \<Rightarrow> string \<Rightarrow> (string \<times> node) list \<Rightarrow> logInfo list exec" where
  "scanEntries env r prefix ext [] = Returns []"
| "scanEntries env r prefix ext (e # es) =
     (case scanEntry env r prefix ext e of
        Panics m \<Rightarrow> Panics m
      | Returns found \<Rightarrow>
          (case scanEntries env r prefix ext es of
             Panics m \<Rightarrow> Panics m
           | Returns rest \<Rightarrow> Returns (found @ rest)))"

definition ReadDir :: "faults \<Rightarrow> world \<Rightarrow> (error + (string \<times> node) list) \<times> world" where
  "ReadDir flt w =
     ((if flt OpReadDir then Inl (OsError OpReadDir) else Inr (dir w)), syscall OpReadDir w)"

definition oldLogFiles ::
  "goenv \<Rightarrow> faults \<Rightarrow> LumberjackRoller \<Rightarrow> world \<Rightarrow> ((error + logInfo list) \<times> world) exec" where
  "oldLogFiles env flt r w =
     (case ReadDir flt w of
        (Inl e, w') \<Rightarrow> Returns (Inl (Errorf ''can't read log file directory: %w'' [] e), w')
      | (Inr files, w') \<Rightarrow>
          (let (prefix, ext) = prefixAndExt env r
           in case scanEntries env r prefix ext files of
                Panics m \<Rightarrow> Panics m
              | Returns logFiles \<Rightarrow> Returns (Inr (sort_Sort logFiles), w')))"

subsection \<open>LumberjackRoller: the retention pass\<close>

text \<open>
  The three filters of \<open>millRunOnce\<close>, each a loop over the catalog that splits it into
  the entries to remove and the entries remaining, in order.
\<close>

fun sizeFilter :: "int \<Rightarrow> int \<Rightarrow> logInfo list \<Rightarrow> logInfo list \<times> logInfo list" where
  "sizeFilter maxSize tot [] = ([], [])"
| "sizeFilter maxSize tot (f # fs) =
     (let total' = tot + FileInfo_Size (FileInfo f);
          (remove, remaining) = sizeFilter maxSize total' fs
      in if total' > maxSize then (f # remove, remaining) else (remove, f # remaining))"

text \<open>\<open>preserved\<close> is a map whose values are all \<open>true\<close>: the set of its keys.\<close>

fun countFilter ::
  "string \<Rightarrow> int \<Rightarrow> string set \<Rightarrow> logInfo list \<Rightarrow> logInfo list \<times> logInfo list" where
  "countFilter suffix maxCount preserved [] = ([], [])"
| "countFilter suffix maxCount preserved (f # fs) =
     (let fn = TrimSuffix (Name f) suffix;
          preserved' = insert fn preserved;
          (remove, remaining) = countFilter suffix maxCount preserved' fs
      in if int (card preserved') > maxCount then (f # remove, remaining)
         else (remove, f # remaining))"

definition ageFilter :: "gotime \<Rightarrow> logInfo list \<Rightarrow> logInfo list \<times> logInfo list" where
  "ageFilter cutoff files =
     (filter (\<lambda>f. Before (timestamp f) cutoff) files,
      filter (\<lambda>f. \<not> Before (timestamp f) cutoff) files)"

text \<open>
  The decisions of a pass: the lists \<open>remove\<close> and \<open>compress\<close> of \<open>millRunOnce\<close> as they
  stand when the filters are done.
\<close>

definition millPlan :: "LumberjackRoller \<Rightarrow> gotime \<Rightarrow> logInfo list \<Rightarrow> logInfo list \<times> logInfo list" where
  "millPlan r current files0 =
     (let (rm1, files1) =
            (if MaxSize (opts r) > 0 then sizeFilter (MaxSize (opts r)) 0 files0
             else ([], files0));
          (rm2, files2) =
            (if FileMaxCount (opts r) > 0 \<and> FileMaxCount (opts r) < int (length files1)
             then countFilter (CompressSuffix (opts r)) (FileMaxCount (opts r)) {} files1
             else ([], files1));
          (rm3, files3) =
            (if FileMaxAge (opts r) > 0
             then ageFilter (Add current (- 1 * FileMaxAge (opts r))) files2
             else ([], files2));
          compress =
            (if Compress (opts r)
             then filter (\<lambda>f. \<not> HasSuffix (Name f) (CompressSuffix (opts r))) files3
             else [])
      in (rm1 @ rm2 @ rm3, compress))"

subsection \<open>LumberjackRoller: compressing a backup\<close>

text \<open>
  \<open>compressLogFile\<close> registers three deferred calls as it goes: \<open>f.Close()\<close> once the
  source is open, \<open>gzf.Close()\<close> once the destination is open, and then the function
  that removes the destination when the named result \<open>err\<close> is set. They run in reverse
  order when the function returns. The stages below are the function's statements in
  order, each ending in the deferred calls registered so far.
\<close>

definition Open :: "faults \<Rightarrow> string \<Rightarrow> world \<Rightarrow> error option \<times> world" where
  "Open flt name w =
     ((if flt (OpOpen name) then Some (OsError (OpOpen name))
       else case map_of (dir w) name of
              None \<Rightarrow> Some (ErrNotExist name)
            | Some n \<Rightarrow> None),
      syscall (OpOpen name) w)"

text \<open>Return before the destination is open: only \<open>f.Close()\<close> is deferred.\<close>

definition compress_early ::
  "faults \<Rightarrow> string \<Rightarrow> error \<Rightarrow> world \<Rightarrow> error option \<times> world" where
  "compress_early flt src e w = (Some e, snd (File_Close flt src w))"

text \<open>
  Return with \<open>err\<close> set after the destination is open: remove the destination, wrap the
  error, then the two deferred closes.
\<close>

definition compress_abort ::
  "faults \<Rightarrow> string \<Rightarrow> string \<Rightarrow> error \<Rightarrow> world \<Rightarrow> error option \<times> world" where
  "compress_abort flt src dst e w =
     (let w1 = snd (Remove flt dst w);
          w2 = snd (File_Close flt dst w1);
          w3 = snd (File_Close flt src w2)
      in (Some (Errorf ''failed to compress log file: %w'' [] e), w3))"

definition compress_remove_src ::
  "faults \<Rightarrow> string \<Rightarrow> string \<Rightarrow> world \<Rightarrow> error option \<times> world" where
  "compress_remove_src flt src dst w =
     (case Remove flt src w of
        (Some e, w1) \<Rightarrow> compress_abort flt src dst e w1
      | (None, w1) \<Rightarrow> (None, snd (File_Close flt src (snd (File_Close flt dst w1)))))"

definition compress_close_src ::
  "faults \<Rightarrow> string \<Rightarrow> string \<Rightarrow> world \<Rightarrow> error option \<times> world" where
  "compress_close_src flt src dst w =
     (case File_Close flt src w of
        (Some e, w1) \<Rightarrow> compress_abort flt src dst e w1
      | (None, w1) \<Rightarrow> compress_remove_src flt src dst w1)"

definition compress_close_dst ::
  "faults \<Rightarrow> string \<Rightarrow> string \<Rightarrow> world \<Rightarrow> error option \<times> world" where
  "compress_close_dst flt src dst w =
     (case File_Close flt dst w of
        (Some e, w1) \<Rightarrow> compress_abort flt src dst e w1
      | (None, w1) \<Rightarrow> compress_close_src flt src dst w1)"

text \<open>\<open>gz.Close()\<close> flushes the gzip writer: the trailer reaches the destination.\<close>

definition compress_gz_close ::
  "goenv \<Rightarrow> faults \<Rightarrow> string \<Rightarrow> string \<Rightarrow> bytes \<Rightarrow> world \<Rightarrow> error option \<times> world" where
  "compress_gz_close env flt src dst data w =
     (let w1 = syscall (OpGzClose dst) w
      in if flt (OpGzClose dst) then compress_abort flt src dst (OsError (OpGzClose dst)) w1
         else compress_close_dst flt src dst
                (w1\<lparr>dir := append_bytes dst (gztrailer env data) (dir w1)\<rparr>))"

text \<open>
  \<open>io.Copy(gz, f)\<close>. A failing copy is taken to leave the destination as it was opened;
  a directory cannot be read as a file.
\<close>

definition compress_copy ::
  "goenv \<Rightarrow> faults \<Rightarrow> string \<Rightarrow> string \<Rightarrow> world \<Rightarrow> error option \<times> world" where
  "compress_copy env flt src dst w =
     (let w1 = syscall (OpCopy src dst) w
      in if flt (OpCopy src dst) then compress_abort flt src dst (OsError (OpCopy src dst)) w1
         else case map_of (dir w1) src of
                Some (RegFile data m) \<Rightarrow>
                  compress_gz_close env flt src dst data
                    (w1\<lparr>dir := append_bytes dst (gzbody env data) (dir w1)\<rparr>)
              | _ \<Rightarrow> compress_abort flt src dst (OsError (OpCopy src dst)) w1)"

definition compress_open_dst ::
  "goenv \<Rightarrow> faults \<Rightarrow> string \<Rightarrow> string \<Rightarrow> node \<Rightarrow> world \<Rightarrow> error option \<times> world" where
  "compress_open_dst env flt src dst fi w =
     (case chown flt dst fi w of
        (Some e, w1) \<Rightarrow>
          compress_early flt src (Errorf ''failed to chown compressed log file: %w'' [] e) w1
      | (None, w1) \<Rightarrow>
          (case OpenFile_trunc flt dst (FileInfo_Mode fi) w1 of
             (Inl e, w2) \<Rightarrow>
               compress_early flt src (Errorf ''failed to open compressed log file: %w'' [] e) w2
           | (Inr gzf, w2) \<Rightarrow> compress_copy env flt src dst w2))"

definition compressLogFile ::
  "goenv \<Rightarrow> faults \<Rightarrow> string \<Rightarrow> string \<Rightarrow> world \<Rightarrow> error option \<times> world" where
  "compressLogFile env flt src dst w =
     (case Open flt src w of
        (Some e, w1) \<Rightarrow> (Some (Errorf ''failed to open log file: %w'' [] e), w1)
      | (None, w1) \<Rightarrow>
          (case osStat flt src w1 of
             (Inl e, w2) \<Rightarrow> compress_early flt src (Errorf ''failed to stat log file: %w'' [] e) w2
           | (Inr fi, w2) \<Rightarrow> compress_open_dst env flt src dst fi w2))"

subsection \<open>LumberjackRoller: millRunOnce\<close>




subsection \<open>Roller: the engine of composable predicates (roller.go)\<close>

text \<open>
  The second engine keeps its own options. \<open>RotateName\<close> is a Go function from the file
  name to the backup name that may read the clock (the default does): here it takes the
  clock reading as well. Paths are used as they are given, so the directory model is
  keyed by whole paths for this engine. Durations are \<open>int64\<close> nanoseconds.
\<close>

record RollerOptions =
  Filename :: string
  Size :: int
  Duration :: int
  RotateName :: "gotime \<Rightarrow> string \<Rightarrow> string"
  LifecycleGlob :: string
  LifecycleSize :: int
  LifecycleCount :: int
  LifecycleDuration :: int

text \<open>A channel value: nil, open, or closed.\<close>

datatype chan = ChanNil | ChanOpen | ChanClosed

record Roller =
  Roller_options :: RollerOptions
  Roller_f :: "string option"
  Roller_size :: int
  Roller_createTime :: gotime
  Roller_millCh :: chan
  Roller_fileShredder :: bool

text \<open>The zero \<open>time.Time\<close>: the first instant of year 1, in UTC.\<close>

definition zeroTime :: gotime where
  "zeroTime = \<lparr>unixnano = - 62135596800000000000, zoneoff = 0\<rparr>"

text \<open>\<open>time.Since\<close>: the difference to the clock, saturating at the bounds of \<open>int64\<close>.\<close>

definition Since :: "world \<Rightarrow> gotime \<Rightarrow> int" where
  "Since w t =
     (let d = unixnano (now w) - unixnano t
      in if d > 9223372036854775807 then 9223372036854775807
         else if d < - 9223372036854775808 then - 9223372036854775808
         else d)"

definition isRotate :: "Roller \<Rightarrow> int \<Rightarrow> world \<Rightarrow> bool" where
  "isRotate r writeLen w =
     (if Size (Roller_options r) > 0 \<and> writeLen + Roller_size r > Size (Roller_options r) then True
      else if Duration (Roller_options r) > 0 \<and> Since w (Roller_createTime r) > Duration (Roller_options r) then True
      else False)"

text \<open>
  \<open>mill\<close> is a \<open>select\<close> that sends on \<open>millCh\<close> or falls through to \<open>default\<close>. Nothing
  of the roller changes; a send on a closed channel panics.
\<close>

definition Roller_mill :: "Roller \<Rightarrow> Roller exec" where
  "Roller_mill r =
     (if Roller_millCh r = ChanClosed then Panics ''send on closed channel'' else Returns r)"

definition Roller_close :: "faults \<Rightarrow> Roller \<Rightarrow> world \<Rightarrow> error option \<times> Roller \<times> world" where
  "Roller_close flt r w =
     (case Roller_f r of
        None \<Rightarrow> (None, r, w)
      | Some h \<Rightarrow>
          (let (err, w') = File_Close flt h w
           in (err, r\<lparr>Roller_f := None, Roller_size := 0, Roller_createTime := zeroTime\<rparr>, w')))"

definition Roller_openNew :: "faults \<Rightarrow> Roller \<Rightarrow> world \<Rightarrow> (error + string) \<times> world" where
  "Roller_openNew flt r w =
     (case MkdirAll flt w of
        (Some e, w1) \<Rightarrow> (Inl e, w1)
      | (None, w1) \<Rightarrow> OpenFile_trunc flt (Filename (Roller_options r)) 420 w1)"

definition Roller_openExist :: "faults \<Rightarrow> Roller \<Rightarrow> world \<Rightarrow> (error + string) \<times> world" where
  "Roller_openExist flt r w = OpenFile_append flt (Filename (Roller_options r)) w"

text \<open>
  \<open>(*os.File).Stat\<close> on the handle just opened. The size is the file's; the modification
  time is not part of the directory model and is supplied by the caller of the model
  (\<open>mt\<close>).
\<close>

definition File_Stat :: "faults \<Rightarrow> string \<Rightarrow> world \<Rightarrow> (error + node) \<times> world" where
  "File_Stat flt h w =
     ((if flt (OpFileStat h) then Inl (OsError (OpFileStat h))
       else case map_of (dir w) h of
              None \<Rightarrow> Inl (ErrNotExist h)
            | Some n \<Rightarrow> Inr n),
      syscall (OpFileStat h) w)"

definition Roller_open_stat ::
  "faults \<Rightarrow> (string \<Rightarrow> gotime) \<Rightarrow> Roller \<Rightarrow> string \<Rightarrow> world \<Rightarrow> error option \<times> Roller \<times> world" where
  "Roller_open_stat flt mt r h w =
     (case File_Stat flt h w of
        (Inl e, w1) \<Rightarrow> (Some e, r, w1)
      | (Inr info, w1) \<Rightarrow>
          (None, r\<lparr>Roller_f := Some h, Roller_size := FileInfo_Size info, Roller_createTime := mt h\<rparr>, w1))"

definition Roller_open ::
  "faults \<Rightarrow> (string \<Rightarrow> gotime) \<Rightarrow> Roller \<Rightarrow> world \<Rightarrow> error option \<times> Roller \<times> world" where
  "Roller_open flt mt r w =
     (let (st, w1) = osStat flt (Filename (Roller_options r)) w;
          opened = (case st of
                      Inr info \<Rightarrow> Some (Roller_openExist flt r w1)
                    | Inl e \<Rightarrow> if IsNotExist e then Some (Roller_openNew flt r w1) else None)
      in case opened of
           None \<Rightarrow> (Some (case st of Inl e \<Rightarrow> e | Inr info \<Rightarrow> ErrInvalid), r, w1)
         | Some (Inl e, w2) \<Rightarrow> (Some e, r, w2)
         | Some (Inr h, w2) \<Rightarrow> Roller_open_stat flt mt r h w2)"

text \<open>The steps of \<open>Roller.rotate\<close> after a successful \<open>close\<close>.\<close>

definition Roller_rotate_move ::
  "faults \<Rightarrow> (string \<Rightarrow> gotime) \<Rightarrow> Roller \<Rightarrow> world \<Rightarrow> (error option \<times> Roller \<times> world) exec" where
  "Roller_rotate_move flt mt r w =
     (let rotateName = RotateName (Roller_options r) (now w) (Filename (Roller_options r))
      in case MkdirAll flt w of
           (Some e, w1) \<Rightarrow> Returns (Some e, r, w1)
         | (None, w1) \<Rightarrow>
             (case Rename flt (Filename (Roller_options r)) rotateName w1 of
                (Some e, w2) \<Rightarrow> Returns (Some e, r, w2)
              | (None, w2) \<Rightarrow>
                  (case Roller_open flt mt r w2 of
                     (Some e, r3, w3) \<Rightarrow> Returns (Some e, r3, w3)
                   | (None, r3, w3) \<Rightarrow>
                       (case Roller_mill r3 of
                          Panics m \<Rightarrow> Panics m
                        | Returns r4 \<Rightarrow> Returns (None, r4, w3)))))"

definition Roller_rotate ::
  "faults \<Rightarrow> (string \<Rightarrow> gotime) \<Rightarrow> Roller \<Rightarrow> world \<Rightarrow> (error option \<times> Roller \<times> world) exec" where
  "Roller_rotate flt mt r w =
     (case Roller_close flt r w of
        (Some e, r1, w1) \<Rightarrow> Returns (Some e, r1, w1)
      | (None, r1, w1) \<Rightarrow> Roller_rotate_move flt mt r1 w1)"

definition Roller_write_file ::
  "faults \<Rightarrow> Roller \<Rightarrow> bytes \<Rightarrow> world \<Rightarrow> (int \<times> error option) \<times> Roller \<times> world" where
  "Roller_write_file flt r p w =
     (let ((n, err), w') = File_Write flt (Roller_f r) p w
      in ((n, err), r\<lparr>Roller_size := Roller_size r + n\<rparr>, w'))"

definition Roller_Write ::
  "faults \<Rightarrow> (string \<Rightarrow> gotime) \<Rightarrow> Roller \<Rightarrow> bytes \<Rightarrow> world
     \<Rightarrow> ((int \<times> error option) \<times> Roller \<times> world) exec" where
  "Roller_Write flt mt r p w =
     (let writeLen = int (length p)
      in if Size (Roller_options r) > 0 \<and> writeLen > Size (Roller_options r)
         then Returns ((0, Some (Errorf ''write length %d, max size %d: %w''
                                   [writeLen, Size (Roller_options r)] ErrWriteTooLong)), r, w)
         else if isRotate r writeLen w
         then (case Roller_rotate flt mt r w of
                 Panics m \<Rightarrow> Panics m
               | Returns (Some e, r1, w1) \<Rightarrow> Returns ((0, Some e), r1, w1)
               | Returns (None, r1, w1) \<Rightarrow> Returns (Roller_write_file flt r1 p w1))
         else Returns (Roller_write_file flt r p w))"

text \<open>
  \<open>Roller.Close\<close> closes \<open>millCh\<close> before it closes the file. Closing a nil or an already
  closed channel panics.
\<close>

definition Roller_Close :: "faults \<Rightarrow> Roller \<Rightarrow> world \<Rightarrow> (error option \<times> Roller \<times> world) exec" where
  "Roller_Close flt r w =
     (case Roller_millCh r of
        ChanNil \<Rightarrow> Panics ''close of nil channel''
      | ChanClosed \<Rightarrow> Panics ''close of closed channel''
      | ChanOpen \<Rightarrow> Returns (Roller_close flt (r\<lparr>Roller_millCh := ChanClosed\<rparr>) w))"

text \<open>
  \<open>NewRoller\<close>. The file shredder belongs to another module; \<open>shredder\<close> is what its
  constructor returns when the lifecycle options ask for one.
\<close>

definition NewRoller ::
  "faults \<Rightarrow> (string \<Rightarrow> gotime) \<Rightarrow> error option \<Rightarrow> RollerOptions \<Rightarrow> world
     \<Rightarrow> (error + Roller) \<times> world" where
  "NewRoller flt mt shredder opt w =
     (if length (Filename opt) = 0 then (Inl (NewError ''filename can not empty''), w)
      else let r = \<lparr>Roller_options = opt, Roller_f = None, Roller_size = 0,
                     Roller_createTime = zeroTime,
                     Roller_millCh = ChanOpen, Roller_fileShredder = False\<rparr>;
               wanted = (length (LifecycleGlob opt) > 0
                         \<and> (LifecycleSize opt \<noteq> 0 \<or> LifecycleCount opt \<noteq> 0
                            \<or> LifecycleDuration opt \<noteq> 0))
           in if wanted \<and> shredder \<noteq> None then (Inl (the shredder), w)
              else case Roller_open flt mt (r\<lparr>Roller_fileShredder := wanted\<rparr>) w of
                     (Some e, r1, w1) \<Rightarrow> (Inl e, w1)
                   | (None, r1, w1) \<Rightarrow> (Inr r1, w1))"

subsection \<open>The count filter as the specification words it\<close>






subsection \<open>Concrete configurations\<close>

text \<open>
  Inputs at which the theorems below are instantiated: a world without faults, a clock
  reading (2016-11-04 18:30:00 UTC), an empty log directory, and rollers configured
  through the options of options.go.
\<close>

definition nofault :: faults where
  "nofault = (\<lambda>op. False)"

definition exTime :: gotime where
  "exTime = \<lparr>unixnano = 1478284200000000000, zoneoff = 0\<rparr>"

definition emptyWorld :: world where
  "emptyWorld = \<lparr>dir = [], now = exTime, trace = []\<rparr>"

definition exRollerOptions :: RollerOptions where
  "exRollerOptions =
     \<lparr>Filename = ''test.log'', Size = 1024, Duration = 0,
      RotateName = (\<lambda>t n. n @ ''.1''), LifecycleGlob = [], LifecycleSize = 0,
      LifecycleCount = 0, LifecycleDuration = 0\<rparr>"

definition exRoller :: Roller where
  "exRoller =
     \<lparr>Roller_options = exRollerOptions, Roller_f = Some ''test.log'', Roller_size = 0,
      Roller_createTime = exTime, Roller_millCh = ChanOpen, Roller_fileShredder = False\<rparr>"

definition exRollerWorld :: world where
  "exRollerWorld =
     \<lparr>dir = [(''test.log'', RegFile [] 420)], now = exTime,
      trace = [OpStat ''test.log'', OpMkdirAll, OpOpenFile ''test.log'',
               OpFileStat ''test.log'']\<rparr>"

definition exOptions :: Options where
  "exOptions = (NewOptions 0)\<lparr>FileName := ''/var/log/foo/server.log'', FileMaxSize := 100\<rparr>"

definition exLumberjack :: LumberjackRoller where
  "exLumberjack = \<lparr>opts = exOptions, size' = 0, file' = Some ''server.log'', millCh = True\<rparr>"

definition exWorld :: world where
  "exWorld =
     \<lparr>dir = [(''server.log'', RegFile [] 384)], now = exTime,
      trace = [OpStat ''server.log'', OpMkdirAll, OpStat ''server.log'',
               OpOpenFile ''server.log'']\<rparr>"

definition exDirectOptions :: Options where
  "exDirectOptions =
     (NewOptions 0)\<lparr>FileName := ''/var/log/foo/server.log'',
                    RotateStrategy := DirectRotateStrategy\<rparr>"

definition exDirect :: LumberjackRoller where
  "exDirect = \<lparr>opts = exDirectOptions, size' = 0, file' = Some ''server.log'', millCh = True\<rparr>"

definition renameFails :: faults where
  "renameFails = (\<lambda>op. case op of OpRename a b \<Rightarrow> True | _ \<Rightarrow> False)"

definition writeFails :: faults where
  "writeFails = (\<lambda>op. case op of OpWrite h n \<Rightarrow> True | _ \<Rightarrow> False)"

text \<open>
  A log directory for the retention pass: the canonical file, three backups rotated at
  10:00 UTC on the first three days of November 2016, a file that is no backup and a
  subdirectory whose name looks like one. The roller keeps at most two backups.
\<close>

definition exMill :: LumberjackRoller where
  "exMill = exLumberjack\<lparr>opts := exOptions\<lparr>FileMaxCount := 2\<rparr>\<rparr>"

definition exT1 :: gotime where
  "exT1 = \<lparr>unixnano = 1477994400000000000, zoneoff = 0\<rparr>"

definition exT2 :: gotime where
  "exT2 = \<lparr>unixnano = 1478080800000000000, zoneoff = 0\<rparr>"

definition exT3 :: gotime where
  "exT3 = \<lparr>unixnano = 1478167200000000000, zoneoff = 0\<rparr>"

definition exMillDir :: directory where
  "exMillDir =
     [(''notes.txt'', RegFile ''n'' 420),
      (''server-2016-11-01T10-00-00.000.log'', RegFile ''one'' 384),
      (''server-2016-11-02T10-00-00.000.log'', RegFile ''two'' 384),
      (''server-2016-11-03T10-00-00.000.log'', RegFile ''three'' 384),
      (''server-2016-11-04T10-00-00.000.log'', SubDir 493),
      (''server.log'', RegFile ''now'' 384)]"

definition exMillWorld :: world where
  "exMillWorld = \<lparr>dir = exMillDir, now = exTime, trace = []\<rparr>"

definition exCatalog :: "logInfo list" where
  "exCatalog =
     [\<lparr>timestamp = exT3, Name = ''server-2016-11-03T10-00-00.000.log'',
       FileInfo = RegFile ''three'' 384\<rparr>,
      \<lparr>timestamp = exT2, Name = ''server-2016-11-02T10-00-00.000.log'',
       FileInfo = RegFile ''two'' 384\<rparr>,
      \<lparr>timestamp = exT1, Name = ''server-2016-11-01T10-00-00.000.log'',
       FileInfo = RegFile ''one'' 384\<rparr>]"








text \<open>A fault at closing the gzip writer, and the names of a backup and its compressed copy.\<close>

definition gzCloseFails :: faults where
  "gzCloseFails = (\<lambda>op. case op of OpGzClose n \<Rightarrow> True | _ \<Rightarrow> False)"

definition exSrc :: string where
  "exSrc = ''server-2016-11-03T10-00-00.000.log''"

definition exDst :: string where
  "exDst = ''server-2016-11-03T10-00-00.000.log.gz''"

text \<open>
  A roller whose backup timestamps are rendered in a zone eight hours east of UTC (what
  \<open>time.Local\<close>, the default, is on a host in that zone), and a roller whose file name
  \<open>a..-\<close> has the extension \<open>.-\<close>, beside a file named \<open>a.-\<close>.
\<close>

definition exZoned :: LumberjackRoller where
  "exZoned = exLumberjack\<lparr>opts := exOptions\<lparr>BackupTimeLocation := 28800\<rparr>\<rparr>"

definition exOdd :: LumberjackRoller where
  "exOdd = exLumberjack\<lparr>opts := exOptions\<lparr>FileName := ''a..-'', FileMaxCount := 2\<rparr>\<rparr>"

definition exOddWorld :: world where
  "exOddWorld =
     \<lparr>dir = [(''a.-'', RegFile ''x'' 420), (''a..-'', RegFile [] 384)], now = exTime,
      trace = []\<rparr>"

section \<open>Properties\<close>

subsection \<open>Closing the composable-predicate engine twice\<close>

lemma Roller_close_millCh:
  "Roller_close flt r w = (err, r', w') \<Longrightarrow> Roller_millCh r' = Roller_millCh r"
  by (auto simp: Roller_close_def Let_def split: option.splits prod.splits)

lemma NewRoller_example:
  "NewRoller nofault (\<lambda>n. exTime) None exRollerOptions emptyWorld = (Inr exRoller, exRollerWorld)"
  by (simp add: NewRoller_def exRollerOptions_def emptyWorld_def nofault_def Roller_open_def
      osStat_def syscall_def Roller_openNew_def MkdirAll_def OpenFile_trunc_def
      Roller_open_stat_def File_Stat_def exRoller_def exRollerWorld_def)

text \<open>
  C10. \<open>Roller.Close\<close> is not idempotent: whenever a call to \<open>Close\<close> returns (with or
  without an error from closing the file), the roller it leaves has a closed \<open>millCh\<close>,
  and the next call to \<open>Close\<close> panics on closing that channel again, whatever the
  world and the faults then are.
\<close>

theorem Roller_Close_twice_panics:
  assumes "Roller_Close flt r w = Returns (err, r', w')"
  shows "Roller_Close flt2 r' w2 = Panics ''close of closed channel''"
proof -
  from assms have "Roller_millCh r = ChanOpen"
    by (cases "Roller_millCh r") (simp_all add: Roller_Close_def)
  with assms have "Roller_close flt (r\<lparr>Roller_millCh := ChanClosed\<rparr>) w = (err, r', w')"
    by (simp add: Roller_Close_def)
  then have "Roller_millCh r' = ChanClosed"
    using Roller_close_millCh by fastforce
  then show ?thesis by (simp add: Roller_Close_def)
qed

text \<open>
  The roller that \<open>NewRoller\<close> builds on an empty directory is closed once, successfully;
  the second \<open>Close\<close> panics.
\<close>

theorem Roller_Close_twice_panics_witness:
  "Roller_Close nofault exRoller exRollerWorld =
     Returns (None, exRoller\<lparr>Roller_f := None, Roller_size := 0, Roller_createTime := zeroTime,
                            Roller_millCh := ChanClosed\<rparr>,
              exRollerWorld\<lparr>trace := trace exRollerWorld @ [OpClose ''test.log'']\<rparr>)
   \<and> Roller_Close nofault
        (exRoller\<lparr>Roller_f := None, Roller_size := 0, Roller_createTime := zeroTime,
                  Roller_millCh := ChanClosed\<rparr>)
        (exRollerWorld\<lparr>trace := trace exRollerWorld @ [OpClose ''test.log'']\<rparr>) =
      Panics ''close of closed channel''"
proof -
  have first: "Roller_Close nofault exRoller exRollerWorld =
     Returns (None, exRoller\<lparr>Roller_f := None, Roller_size := 0, Roller_createTime := zeroTime,
                            Roller_millCh := ChanClosed\<rparr>,
              exRollerWorld\<lparr>trace := trace exRollerWorld @ [OpClose ''test.log'']\<rparr>)"
    by (simp add: Roller_Close_def Roller_close_def File_Close_def syscall_def nofault_def
        exRoller_def exRollerWorld_def)
  from Roller_Close_twice_panics [OF first] first show ?thesis by simp
qed

subsection \<open>Evaluating the model on the concrete configurations\<close>

lemmas os_defs = syscall_def MkdirAll_def osStat_def Rename_def Remove_def OpenFile_trunc_def
  OpenFile_append_def append_bytes_def File_Write_def File_Close_def chown_def Open_def
  File_Stat_def ReadDir_def

lemmas write_path_defs = newFilename_def canonical_def mill_def close_def backupName_def
  openNew_create_def openNew_move_def openNew_def rotate_def write_file_def Write_size_def
  Write_direct_def Write_def SizeRotateStrategy_def DirectRotateStrategy_def

lemmas roller_defs = Roller_mill_def Roller_close_def Roller_openNew_def Roller_openExist_def
  Roller_open_stat_def Roller_open_def Roller_rotate_move_def Roller_rotate_def
  Roller_write_file_def Roller_Write_def isRotate_def Since_def zeroTime_def

lemmas example_defs = nofault_def emptyWorld_def exOptions_def exLumberjack_def exWorld_def
  exDirectOptions_def exDirect_def renameFails_def writeFails_def NewOptions_def
  DefaultBackupTimeFormat_def DefaultCompressSuffix_def exRoller_def exRollerOptions_def
  exRollerWorld_def

lemma Base_example: "Base ''/var/log/foo/server.log'' = ''server.log''"
  by (simp add: Base_def IsPathSeparator_def)

lemma Ext_example: "Ext ''server.log'' = ''.log''"
  by (simp add: Ext_def IsPathSeparator_def)

lemma format_exTime: "time_Format stdenv layout (In exTime 0) = ''2016-11-04T18-30-00.000''"
  by code_simp


subsection \<open>Oversized writes\<close>

text \<open>No system call, and so no step of the write path, fails with \<open>ErrWriteTooLong\<close>.\<close>

lemma MkdirAll_err: "MkdirAll flt w = (Some e, w') \<Longrightarrow> \<not> errors_Is e ErrWriteTooLong"
  by (auto simp: MkdirAll_def split: if_splits)

lemma osStat_err: "osStat flt n w = (Inl e, w') \<Longrightarrow> \<not> errors_Is e ErrWriteTooLong"
  by (auto simp: osStat_def split: if_splits option.splits)

lemma Rename_err: "Rename flt a b w = (Some e, w') \<Longrightarrow> \<not> errors_Is e ErrWriteTooLong"
  by (auto simp: Rename_def Let_def split: if_splits option.splits)

lemma chown_err: "chown flt n i w = (Some e, w') \<Longrightarrow> \<not> errors_Is e ErrWriteTooLong"
  by (auto simp: chown_def split: if_splits)

lemma OpenFile_trunc_err:
  "OpenFile_trunc flt n m w = (Inl e, w') \<Longrightarrow> \<not> errors_Is e ErrWriteTooLong"
  by (auto simp: OpenFile_trunc_def Let_def split: if_splits option.splits node.splits)

lemma OpenFile_append_err:
  "OpenFile_append flt n w = (Inl e, w') \<Longrightarrow> \<not> errors_Is e ErrWriteTooLong"
  by (auto simp: OpenFile_append_def Let_def split: if_splits option.splits node.splits)

lemma File_Write_err:
  "File_Write flt h p w = ((n, Some e), w') \<Longrightarrow> \<not> errors_Is e ErrWriteTooLong"
  by (auto simp: File_Write_def Let_def split: if_splits option.splits)

lemma File_Close_err: "File_Close flt h w = (Some e, w') \<Longrightarrow> \<not> errors_Is e ErrWriteTooLong"
  by (auto simp: File_Close_def split: if_splits)

lemma File_Stat_err: "File_Stat flt n w = (Inl e, w') \<Longrightarrow> \<not> errors_Is e ErrWriteTooLong"
  by (auto simp: File_Stat_def split: if_splits option.splits)

lemma close_err: "close flt r w = (Some e, r', w') \<Longrightarrow> \<not> errors_Is e ErrWriteTooLong"
  by (auto simp: close_def Let_def split: option.splits prod.splits dest: File_Close_err)

lemma openNew_create_err:
  "openNew_create flt r n m w = (Some e, r', w') \<Longrightarrow> \<not> errors_Is e ErrWriteTooLong"
  by (auto simp: openNew_create_def split: prod.splits sum.splits dest: OpenFile_trunc_err)

lemma openNew_move_err:
  "openNew_move env flt r n i w = (Some e, r', w') \<Longrightarrow> \<not> errors_Is e ErrWriteTooLong"
  by (auto simp: openNew_move_def Let_def split: prod.splits option.splits
      dest: Rename_err chown_err openNew_create_err)

lemma openNew_err:
  "openNew env flt r w = (Some e, r', w') \<Longrightarrow> \<not> errors_Is e ErrWriteTooLong"
  by (auto simp: openNew_def Let_def split: prod.splits option.splits sum.splits
      dest: MkdirAll_err openNew_move_err openNew_create_err)

lemma rotate_err:
  "rotate env flt r w = (Some e, r', w') \<Longrightarrow> \<not> errors_Is e ErrWriteTooLong"
  by (auto simp: rotate_def Let_def split: prod.splits option.splits
      dest: close_err openNew_err)

lemma write_file_err:
  "write_file flt r p w = ((n, Some e), r', w') \<Longrightarrow> \<not> errors_Is e ErrWriteTooLong"
  by (auto simp: write_file_def Let_def split: prod.splits dest: File_Write_err)

lemma Write_size_err:
  "Write_size env flt r p w = ((n, Some e), r', w') \<Longrightarrow> \<not> errors_Is e ErrWriteTooLong"
  by (auto simp: Write_size_def split: if_splits prod.splits option.splits
      dest: rotate_err write_file_err)

lemma Write_direct_err:
  "Write_direct env flt r p w = ((n, Some e), r', w') \<Longrightarrow> \<not> errors_Is e ErrWriteTooLong"
  by (auto simp: Write_direct_def Let_def split: if_splits prod.splits option.splits
      dest: rotate_err write_file_err)

lemma Roller_close_err:
  "Roller_close flt r w = (Some e, r', w') \<Longrightarrow> \<not> errors_Is e ErrWriteTooLong"
  by (auto simp: Roller_close_def Let_def split: option.splits prod.splits dest: File_Close_err)

lemma Roller_openNew_err:
  "Roller_openNew flt r w = (Inl e, w') \<Longrightarrow> \<not> errors_Is e ErrWriteTooLong"
  by (auto simp: Roller_openNew_def split: prod.splits option.splits
      dest: MkdirAll_err OpenFile_trunc_err)

lemma Roller_open_stat_err:
  "Roller_open_stat flt mt r h w = (Some e, r', w') \<Longrightarrow> \<not> errors_Is e ErrWriteTooLong"
  by (auto simp: Roller_open_stat_def split: prod.splits sum.splits dest: File_Stat_err)

lemma Roller_open_err:
  "Roller_open flt mt r w = (Some e, r', w') \<Longrightarrow> \<not> errors_Is e ErrWriteTooLong"
  by (auto simp: Roller_open_def Roller_openExist_def Let_def
      split: prod.splits option.splits sum.splits if_splits
      dest: osStat_err Roller_openNew_err OpenFile_append_err Roller_open_stat_err)

lemma Roller_rotate_move_err:
  "Roller_rotate_move flt mt r w = Returns (Some e, r', w') \<Longrightarrow> \<not> errors_Is e ErrWriteTooLong"
  by (auto simp: Roller_rotate_move_def Let_def
      split: prod.splits option.splits exec.splits
      dest: MkdirAll_err Rename_err Roller_open_err)

lemma Roller_rotate_err:
  "Roller_rotate flt mt r w = Returns (Some e, r', w') \<Longrightarrow> \<not> errors_Is e ErrWriteTooLong"
  by (auto simp: Roller_rotate_def split: prod.splits option.splits
      dest: Roller_close_err Roller_rotate_move_err)

lemma Roller_write_file_err:
  "Roller_write_file flt r p w = ((n, Some e), r', w') \<Longrightarrow> \<not> errors_Is e ErrWriteTooLong"
  by (auto simp: Roller_write_file_def Let_def split: prod.splits dest: File_Write_err)

text \<open>
  C2. In both engines a write longer than a positive maximum file size returns count 0
  and an error wrapping \<open>ErrWriteTooLong\<close>, and leaves the roller and the world as they
  were: the tracked size is unchanged, no file is touched and no system call is made
  (the trace is the same), so nothing is rotated or written. With no positive maximum
  configured, no error that \<open>Write\<close> returns is \<open>ErrWriteTooLong\<close>.
\<close>

theorem write_too_long_rejected:
  "(0 < FileMaxSize (opts r) \<and> FileMaxSize (opts r) < int (length p) \<longrightarrow>
      Write env flt r p w =
        ((0, Some (Errorf ''write length %d, max size %d: %w''
                     [int (length p), FileMaxSize (opts r)] ErrWriteTooLong)), r, w))
   \<and> (FileMaxSize (opts r) \<le> 0 \<longrightarrow>
        (\<forall>n e r' w'. Write env flt r p w = ((n, Some e), r', w')
           \<longrightarrow> \<not> errors_Is e ErrWriteTooLong))
   \<and> (0 < Size (Roller_options rr) \<and> Size (Roller_options rr) < int (length p) \<longrightarrow>
        Roller_Write flt mt rr p w =
          Returns ((0, Some (Errorf ''write length %d, max size %d: %w''
                       [int (length p), Size (Roller_options rr)] ErrWriteTooLong)), rr, w))
   \<and> (Size (Roller_options rr) \<le> 0 \<longrightarrow>
        (\<forall>n e r' w'. Roller_Write flt mt rr p w = Returns ((n, Some e), r', w')
           \<longrightarrow> \<not> errors_Is e ErrWriteTooLong))"
proof (intro conjI impI allI)
  assume "0 < FileMaxSize (opts r) \<and> FileMaxSize (opts r) < int (length p)"
  then show "Write env flt r p w =
        ((0, Some (Errorf ''write length %d, max size %d: %w''
                     [int (length p), FileMaxSize (opts r)] ErrWriteTooLong)), r, w)"
    by (simp add: Write_def)
next
  fix n e r' w'
  assume "FileMaxSize (opts r) \<le> 0" and "Write env flt r p w = ((n, Some e), r', w')"
  then show "\<not> errors_Is e ErrWriteTooLong"
    by (auto simp: Write_def Let_def split: if_splits dest: Write_size_err Write_direct_err)
next
  assume "0 < Size (Roller_options rr) \<and> Size (Roller_options rr) < int (length p)"
  then show "Roller_Write flt mt rr p w =
          Returns ((0, Some (Errorf ''write length %d, max size %d: %w''
                       [int (length p), Size (Roller_options rr)] ErrWriteTooLong)), rr, w)"
    by (simp add: Roller_Write_def)
next
  fix n e r' w'
  assume "Size (Roller_options rr) \<le> 0"
    and "Roller_Write flt mt rr p w = Returns ((n, Some e), r', w')"
  then show "\<not> errors_Is e ErrWriteTooLong"
    by (auto simp: Roller_Write_def Let_def split: if_splits exec.splits prod.splits option.splits
        dest: Roller_rotate_err Roller_write_file_err)
qed

text \<open>
  With a maximum of 100 (1024 for \<open>Roller\<close>) a write of 101 (1025) bytes is rejected and
  nothing changes. With no maximum, a write whose rotation (whose file write) fails
  returns that failure, which is not \<open>ErrWriteTooLong\<close>.
\<close>

theorem write_too_long_rejected_witness:
  "Write stdenv nofault exLumberjack (replicate 101 CHR ''x'') exWorld =
     ((0, Some (Errorf ''write length %d, max size %d: %w'' [101, 100] ErrWriteTooLong)),
      exLumberjack, exWorld)
   \<and> Write stdenv renameFails exDirect ''hello'' exWorld =
       ((0, Some (Errorf ''can't rename log file: %w'' []
                    (OsError (OpRename ''server.log'' ''server-2016-11-04T18-30-00.000.log'')))),
        exDirect\<lparr>size' := 5, file' := None\<rparr>,
        exWorld\<lparr>dir := [(''server.log'', RegFile ''hello'' 384)],
                trace := trace exWorld @
                  [OpWrite ''server.log'' 5, OpClose ''server.log'', OpMkdirAll,
                   OpStat ''server.log'',
                   OpRename ''server.log'' ''server-2016-11-04T18-30-00.000.log'']\<rparr>)
   \<and> \<not> errors_Is (Errorf ''can't rename log file: %w'' []
                    (OsError (OpRename ''server.log'' ''server-2016-11-04T18-30-00.000.log'')))
          ErrWriteTooLong
   \<and> Roller_Write nofault (\<lambda>n. exTime) exRoller (replicate 1025 CHR ''x'') exRollerWorld =
       Returns ((0, Some (Errorf ''write length %d, max size %d: %w'' [1025, 1024]
                            ErrWriteTooLong)), exRoller, exRollerWorld)
   \<and> Roller_Write writeFails (\<lambda>n. exTime)
        (exRoller\<lparr>Roller_options := exRollerOptions\<lparr>Size := 0\<rparr>\<rparr>) ''hello'' exRollerWorld =
       Returns ((0, Some (OsError (OpWrite ''test.log'' 5))),
                exRoller\<lparr>Roller_options := exRollerOptions\<lparr>Size := 0\<rparr>\<rparr>,
                exRollerWorld\<lparr>trace := trace exRollerWorld @ [OpWrite ''test.log'' 5]\<rparr>)
   \<and> \<not> errors_Is (OsError (OpWrite ''test.log'' 5)) ErrWriteTooLong"
proof -
  have sized: "0 < FileMaxSize (opts exLumberjack)
      \<and> FileMaxSize (opts exLumberjack) < int (length (replicate 101 CHR ''x''))"
    by (simp add: example_defs)
  have rsized: "0 < Size (Roller_options exRoller)
      \<and> Size (Roller_options exRoller) < int (length (replicate 1025 CHR ''x''))"
    by (simp add: example_defs)
  have unsized: "FileMaxSize (opts exDirect) \<le> 0"
    by (simp add: example_defs)
  have runsized: "Size (Roller_options (exRoller\<lparr>Roller_options := exRollerOptions\<lparr>Size := 0\<rparr>\<rparr>)) \<le> 0"
    by simp
  have direct: "Write stdenv renameFails exDirect ''hello'' exWorld =
       ((0, Some (Errorf ''can't rename log file: %w'' []
                    (OsError (OpRename ''server.log'' ''server-2016-11-04T18-30-00.000.log'')))),
        exDirect\<lparr>size' := 5, file' := None\<rparr>,
        exWorld\<lparr>dir := [(''server.log'', RegFile ''hello'' 384)],
                trace := trace exWorld @
                  [OpWrite ''server.log'' 5, OpClose ''server.log'', OpMkdirAll,
                   OpStat ''server.log'',
                   OpRename ''server.log'' ''server-2016-11-04T18-30-00.000.log'']\<rparr>)"
    by (simp add: os_defs write_path_defs example_defs Let_def Base_example Ext_example
        format_exTime)
  have rdirect: "Roller_Write writeFails (\<lambda>n. exTime)
        (exRoller\<lparr>Roller_options := exRollerOptions\<lparr>Size := 0\<rparr>\<rparr>) ''hello'' exRollerWorld =
       Returns ((0, Some (OsError (OpWrite ''test.log'' 5))),
                exRoller\<lparr>Roller_options := exRollerOptions\<lparr>Size := 0\<rparr>\<rparr>,
                exRollerWorld\<lparr>trace := trace exRollerWorld @ [OpWrite ''test.log'' 5]\<rparr>)"
    by (simp add: os_defs roller_defs example_defs Let_def)
  note a = write_too_long_rejected
    [of exLumberjack "replicate 101 CHR ''x''" stdenv nofault exWorld exRoller "\<lambda>n. exTime"]
  note b = write_too_long_rejected
    [of exDirect "''hello''" stdenv renameFails exWorld
        "exRoller\<lparr>Roller_options := exRollerOptions\<lparr>Size := 0\<rparr>\<rparr>" "\<lambda>n. exTime"]
  from a sized have c1: "Write stdenv nofault exLumberjack (replicate 101 CHR ''x'') exWorld =
     ((0, Some (Errorf ''write length %d, max size %d: %w'' [101, 100] ErrWriteTooLong)),
      exLumberjack, exWorld)"
    by (simp add: example_defs)
  from b unsized direct have c2: "\<not> errors_Is (Errorf ''can't rename log file: %w'' []
                    (OsError (OpRename ''server.log'' ''server-2016-11-04T18-30-00.000.log'')))
          ErrWriteTooLong"
    by blast
  show ?thesis
    using c1 c2 direct rdirect by (simp add: os_defs roller_defs example_defs Let_def)
qed

subsection \<open>The canonical file is no backup\<close>

lemma takeWhile_split: "x \<in> set xs \<Longrightarrow> \<exists>ys. xs = takeWhile (\<lambda>c. c \<noteq> x) xs @ x # ys"
  by (induction xs) auto

lemma Ext_suffix: "\<exists>stem. path = stem @ Ext path"
proof (cases "CHR ''.'' \<in> set (takeWhile (\<lambda>c. \<not> IsPathSeparator c) (rev path))")
  case False
  then show ?thesis by (simp add: Ext_def)
next
  case True
  define tail where "tail = takeWhile (\<lambda>c. \<not> IsPathSeparator c) (rev path)"
  define rest where "rest = dropWhile (\<lambda>c. \<not> IsPathSeparator c) (rev path)"
  define tw where "tw = takeWhile (\<lambda>c. c \<noteq> CHR ''.'') tail"
  have rp: "rev path = tail @ rest"
    by (simp add: tail_def rest_def)
  from True have "CHR ''.'' \<in> set tail" by (simp add: tail_def)
  then have "\<exists>ys. tail = takeWhile (\<lambda>c. c \<noteq> CHR ''.'') tail @ CHR ''.'' # ys"
    by (rule takeWhile_split)
  then obtain rest2 where t: "tail = tw @ CHR ''.'' # rest2"
    unfolding tw_def ..
  have "rev (rev path) = rev (tail @ rest)"
    using rp by (rule arg_cong)
  then have p: "path = (rev rest @ rev rest2) @ CHR ''.'' # rev tw"
    unfolding t by simp
  have "Ext path = CHR ''.'' # rev tw"
    using True by (simp add: Ext_def tail_def tw_def)
  with p show ?thesis by metis
qed

lemma Ext_dot: "Ext path = [] \<or> hd (Ext path) = CHR ''.''"
  by (simp add: Ext_def Let_def)

lemma stem_Ext: "take (length path - length (Ext path)) path @ Ext path = path"
proof -
  have gen: "\<And>p stem e. p = stem @ e \<Longrightarrow> take (length p - length e) p @ e = p"
    by simp
  obtain stem where "path = stem @ Ext path" using Ext_suffix ..
  then show ?thesis by (rule gen)
qed

lemma not_HasPrefix_stem:
  assumes "ext = [] \<or> hd ext = CHR ''.''"
  shows "\<not> HasPrefix (stem @ ext) (stem @ ''-'')"
proof
  assume "HasPrefix (stem @ ext) (stem @ ''-'')"
  then have l: "length (stem @ ''-'') \<le> length (stem @ ext)"
    and t: "take (length (stem @ ''-'')) (stem @ ext) = stem @ ''-''"
    by (simp_all add: HasPrefix_def)
  from l have "ext \<noteq> []" by auto
  then obtain c cs where e: "ext = c # cs" by (cases ext) auto
  with t have "c = CHR ''-''" by simp
  with assms e show False by simp
qed

lemma canonical_mismatch:
  "timeFromName env r (canonical env r) (fst (prefixAndExt env r)) ext' =
     Returns (Inl (NewError ''mismatched prefix''))"
proof -
  define filename where "filename = Base (newFilename env r)"
  define ext where "ext = Ext filename"
  define stem where "stem = take (length filename - length ext) filename"
  have fe: "stem @ ext = filename"
    unfolding stem_def ext_def by (rule stem_Ext)
  have "ext = [] \<or> hd ext = CHR ''.''"
    unfolding ext_def by (rule Ext_dot)
  then have "\<not> HasPrefix (stem @ ext) (stem @ ''-'')"
    by (rule not_HasPrefix_stem)
  then have "\<not> HasPrefix filename (stem @ ''-'')"
    unfolding fe .
  then show ?thesis
    by (simp add: timeFromName_def canonical_def prefixAndExt_def Let_def filename_def stem_def ext_def)
qed

lemma scanEntry_canonical:
  assumes "scanEntry env r (fst (prefixAndExt env r)) ext e = Returns found"
  shows "canonical env r \<notin> Name ` set found"
proof (cases "fst e = canonical env r")
  case True
  with assms have "found = []"
    by (simp add: scanEntry_def canonical_mismatch split: if_splits)
  then show ?thesis by simp
next
  case False
  with assms show ?thesis
    by (auto simp: scanEntry_def split: if_splits exec.splits sum.splits)
qed

lemma scanEntries_canonical:
  "scanEntries env r (fst (prefixAndExt env r)) ext es = Returns found
     \<Longrightarrow> canonical env r \<notin> Name ` set found"
proof (induction es arbitrary: found)
  case Nil
  then show ?case by simp
next
  case (Cons e es)
  from Cons.prems obtain a b where
    a: "scanEntry env r (fst (prefixAndExt env r)) ext e = Returns a" and
    b: "scanEntries env r (fst (prefixAndExt env r)) ext es = Returns b" and
    f: "found = a @ b"
    by (auto split: exec.splits)
  from scanEntry_canonical [OF a] Cons.IH [OF b] f show ?case by auto
qed

lemma set_sort_insert: "set (sort_insert x xs) = insert x (set xs)"
  by (induction xs) auto

lemma set_sort_Sort: "set (sort_Sort xs) = set xs"
  unfolding sort_Sort_def by (induction xs) (auto simp: set_sort_insert)

lemma oldLogFiles_canonical:
  assumes "oldLogFiles env flt r w = Returns (Inr files, w')"
  shows "canonical env r \<notin> Name ` set files"
proof -
  obtain prefix ext where pe: "prefixAndExt env r = (prefix, ext)"
    by (cases "prefixAndExt env r")
  from assms pe obtain found where
    s: "scanEntries env r prefix ext (dir w) = Returns found" and f: "files = sort_Sort found"
    by (auto simp: oldLogFiles_def ReadDir_def split: if_splits exec.splits)
  from s pe have "canonical env r \<notin> Name ` set found"
    using scanEntries_canonical [of env r ext "dir w" found] by simp
  with f show ?thesis by (simp add: set_sort_Sort)
qed

lemma sizeFilter_set:
  "set (fst (sizeFilter m t fs)) \<union> set (snd (sizeFilter m t fs)) = set fs"
proof (induction fs arbitrary: t)
  case Nil
  then show ?case by simp
next
  case (Cons a fs)
  obtain x1 x2 where s: "sizeFilter m (t + FileInfo_Size (FileInfo a)) fs = (x1, x2)"
    by fastforce
  from Cons.IH [of "t + FileInfo_Size (FileInfo a)"] s have "set x1 \<union> set x2 = set fs"
    by simp
  with s show ?case by (auto simp: Let_def)
qed

lemma countFilter_set:
  "set (fst (countFilter sfx c pres fs)) \<union> set (snd (countFilter sfx c pres fs)) = set fs"
proof (induction fs arbitrary: pres)
  case Nil
  then show ?case by simp
next
  case (Cons a fs)
  obtain x1 x2 where
    s: "countFilter sfx c (insert (TrimSuffix (Name a) sfx) pres) fs = (x1, x2)"
    by fastforce
  from Cons.IH [of "insert (TrimSuffix (Name a) sfx) pres"] s
  have "set x1 \<union> set x2 = set fs"
    by simp
  with s show ?case by (auto simp: Let_def)
qed

lemma ageFilter_set: "ageFilter c fs = (rm, keep) \<Longrightarrow> set rm \<union> set keep = set fs"
  by (auto simp: ageFilter_def)

lemma millPlan_subset:
  assumes "millPlan r t files = (remove, compress)"
  shows "set remove \<subseteq> set files \<and> set compress \<subseteq> set files"
proof -
  obtain rm1 f1 where 1: "(if MaxSize (opts r) > 0 then sizeFilter (MaxSize (opts r)) 0 files
             else ([], files)) = (rm1, f1)" by fastforce
  obtain rm2 f2 where 2: "(if FileMaxCount (opts r) > 0 \<and> FileMaxCount (opts r) < int (length f1)
             then countFilter (CompressSuffix (opts r)) (FileMaxCount (opts r)) {} f1
             else ([], f1)) = (rm2, f2)" by fastforce
  obtain rm3 f3 where 3: "(if FileMaxAge (opts r) > 0
             then ageFilter (Add t (- 1 * FileMaxAge (opts r))) f2
             else ([], f2)) = (rm3, f3)" by fastforce
  from 1 have s1: "set rm1 \<union> set f1 = set files"
    using sizeFilter_set [of "MaxSize (opts r)" 0 files] by (auto split: if_splits)
  from 2 have s2: "set rm2 \<union> set f2 = set f1"
    using countFilter_set [of "CompressSuffix (opts r)" "FileMaxCount (opts r)" "{}" f1]
    by (auto split: if_splits)
  from 3 have s3: "set rm3 \<union> set f3 = set f2"
    by (auto split: if_splits dest: ageFilter_set)
  from assms 1 2 3 have "remove = rm1 @ rm2 @ rm3" and "set compress \<subseteq> set f3"
    by (auto simp: millPlan_def Let_def split: if_splits)
  with s1 s2 s3 show ?thesis by auto
qed

text \<open>
  C8. The canonical file never parses as a backup: its name is the stem followed by the
  extension, and the extension is empty or starts with a dot, so the name never starts
  with the stem followed by a hyphen. Hence, whenever the catalog is listed, the
  canonical file is not in it, and it is in neither the to-delete nor the to-compress
  list that the pass derives from the catalog, whatever the options and the clock.
\<close>

theorem canonical_never_in_plan:
  assumes "oldLogFiles env flt r w = Returns (Inr files, w')"
  shows "canonical env r \<notin> Name ` set files
       \<and> canonical env r \<notin> Name ` set (fst (millPlan r t files))
       \<and> canonical env r \<notin> Name ` set (snd (millPlan r t files))"
proof -
  have c: "canonical env r \<notin> Name ` set files"
    using assms by (rule oldLogFiles_canonical)
  have "set (fst (millPlan r t files)) \<subseteq> set files \<and> set (snd (millPlan r t files)) \<subseteq> set files"
    by (rule millPlan_subset) simp
  with c show ?thesis by blast
qed

lemma oldLogFiles_example:
  "oldLogFiles stdenv nofault exMill exMillWorld =
     Returns (Inr exCatalog, exMillWorld\<lparr>trace := [OpReadDir]\<rparr>)"
  by code_simp

lemma millPlan_example:
  "millPlan exMill exTime exCatalog =
     ([\<lparr>timestamp = exT1, Name = ''server-2016-11-01T10-00-00.000.log'',
        FileInfo = RegFile ''one'' 384\<rparr>], [])"
  by code_simp

text \<open>
  In the example directory the canonical file \<open>server.log\<close> sits beside three backups;
  the catalog holds the three backups only, and the plan removes the oldest.
\<close>

theorem canonical_never_in_plan_witness:
  "oldLogFiles stdenv nofault exMill exMillWorld =
     Returns (Inr exCatalog, exMillWorld\<lparr>trace := [OpReadDir]\<rparr>)
   \<and> canonical stdenv exMill = ''server.log''
   \<and> ''server.log'' \<in> fst ` set (dir exMillWorld)
   \<and> ''server.log'' \<notin> Name ` set exCatalog
   \<and> ''server.log'' \<notin> Name ` set (fst (millPlan exMill exTime exCatalog))
   \<and> ''server.log'' \<notin> Name ` set (snd (millPlan exMill exTime exCatalog))"
proof -
  have c: "canonical stdenv exMill = ''server.log''"
    by code_simp
  have d: "''server.log'' \<in> fst ` set (dir exMillWorld)"
    by (simp add: exMillWorld_def exMillDir_def)
  from canonical_never_in_plan [OF oldLogFiles_example, of exTime] oldLogFiles_example c d
  show ?thesis by simp
qed

subsection \<open>The count filter\<close>













subsection \<open>Rotation without faults\<close>


lemma newFilename_frame [simp]:
  "newFilename env (r\<lparr>file' := x\<rparr>) = newFilename env r"
  "newFilename env (r\<lparr>size' := y\<rparr>) = newFilename env r"
  "newFilename env (r\<lparr>millCh := z\<rparr>) = newFilename env r"
  by (simp_all add: newFilename_def)

lemma canonical_frame [simp]:
  "canonical env (r\<lparr>file' := x\<rparr>) = canonical env r"
  "canonical env (r\<lparr>size' := y\<rparr>) = canonical env r"
  "canonical env (r\<lparr>millCh := z\<rparr>) = canonical env r"
  by (simp_all add: canonical_def)

lemma backupName_frame [simp]:
  "backupName env (r\<lparr>file' := x\<rparr>) n l w = backupName env r n l w"
  "backupName env (r\<lparr>size' := y\<rparr>) n l w = backupName env r n l w"
  "backupName env (r\<lparr>millCh := z\<rparr>) n l w = backupName env r n l w"
  "backupName env r n l (w\<lparr>trace := tr\<rparr>) = backupName env r n l w"
  "backupName env r n l (w\<lparr>dir := d\<rparr>) = backupName env r n l w"
  by (simp_all add: backupName_def)


lemma close_closed: "file' r = None \<Longrightarrow> close flt r w = (None, r, w)"
  by (simp add: close_def)



subsection \<open>The size trigger\<close>

lemma write_file_open:
  assumes "file' r = Some h" and "\<not> flt (OpWrite h (length p))"
    and "map_of (dir w) h = Some (RegFile old m)"
  shows "write_file flt r p w =
     ((int (length p), None), r\<lparr>size' := size' r + int (length p)\<rparr>,
      w\<lparr>dir := AList.update h (RegFile (old @ p) m) (dir w),
        trace := trace w @ [OpWrite h (length p)]\<rparr>)"
  using assms by (simp add: write_file_def File_Write_def append_bytes_def syscall_def)







subsection \<open>Failing rotations\<close>

lemma close_frame:
  assumes "close flt r w = (e, r', w')"
  shows "file' r' = None \<and> size' r' = size' r \<and> opts r' = opts r \<and> millCh r' = millCh r
       \<and> dir w' = dir w \<and> now w' = now w"
  using assms
  by (auto simp: close_def File_Close_def syscall_def split: option.splits)

lemma openNew_create_fails:
  assumes "openNew_create flt r n m w = (Some e, r', w')"
  shows "r' = r \<and> dir w' = dir w \<and> now w' = now w"
  using assms
  by (auto simp: openNew_create_def OpenFile_trunc_def syscall_def Let_def
      split: if_splits option.splits node.splits)

lemma openNew_move_fails:
  assumes "openNew_move env flt r n info w = (Some e, r', w')"
    and "bn = backupName env r (newFilename env r) (BackupTimeLocation (opts r)) w"
  shows "r' = r \<and> now w' = now w
       \<and> (dir w' = dir w
          \<or> (\<exists>node. map_of (dir w) n = Some node
                \<and> dir w' = AList.update bn node (AList.delete n (dir w))))"
proof -
  have c: "\<And>w1 m. openNew_create flt r n m w1 = (Some e, r', w') \<Longrightarrow>
              r' = r \<and> dir w' = dir w1 \<and> now w' = now w1"
    by (rule openNew_create_fails)
  show ?thesis
    using assms(1) unfolding openNew_move_def Let_def assms(2) [symmetric]
    by (auto simp: Rename_def chown_def syscall_def Let_def
        split: if_splits option.splits prod.splits dest!: c)
qed

lemma openNew_fails:
  assumes "openNew env flt r w = (Some e, r', w')"
    and "bn = backupName env r (newFilename env r) (BackupTimeLocation (opts r)) w"
    and "c = canonical env r"
  shows "r' = r \<and> now w' = now w
       \<and> (dir w' = dir w
          \<or> (\<exists>node. map_of (dir w) c = Some node
                \<and> dir w' = AList.update bn node (AList.delete c (dir w))))"
proof -
  have m: "\<And>w1 info. openNew_move env flt r c info w1 = (Some e, r', w') \<Longrightarrow>
      r' = r \<and> now w' = now w1
       \<and> (dir w' = dir w1
          \<or> (\<exists>node. map_of (dir w1) c = Some node
                \<and> dir w' = AList.update
                     (backupName env r (newFilename env r) (BackupTimeLocation (opts r)) w1)
                     node (AList.delete c (dir w1))))"
    by (rule openNew_move_fails) simp_all
  have k: "\<And>w1 m. openNew_create flt r c m w1 = (Some e, r', w') \<Longrightarrow>
              r' = r \<and> dir w' = dir w1 \<and> now w' = now w1"
    by (rule openNew_create_fails)
  show ?thesis
    using assms(1) unfolding openNew_def Let_def assms(3) [symmetric]
    by (auto simp: MkdirAll_def osStat_def syscall_def assms(2) backupName_def
        split: if_splits option.splits prod.splits sum.splits dest!: m k)
qed

lemma rotate_fails:
  assumes "rotate env flt r w = (Some e, r', w')"
    and "bn = backupName env r (newFilename env r) (BackupTimeLocation (opts r)) w"
    and "c = canonical env r"
  shows "file' r' = None \<and> size' r' = size' r \<and> opts r' = opts r \<and> millCh r' = millCh r
       \<and> now w' = now w
       \<and> (dir w' = dir w
          \<or> (\<exists>node. map_of (dir w) c = Some node
                \<and> dir w' = AList.update bn node (AList.delete c (dir w))))"
proof -
  obtain e1 r1 w1 where cl: "close flt r w = (e1, r1, w1)"
    by (cases "close flt r w") auto
  note f = close_frame [OF cl]
  show ?thesis
  proof (cases e1)
    case (Some x)
    with assms(1) cl f show ?thesis by (simp add: rotate_def)
  next
    case None
    with assms(1) cl have o: "openNew env flt r1 w1 = (Some e, r', w')"
      by (auto simp: rotate_def Let_def split: prod.splits option.splits)
    have b: "bn = backupName env r1 (newFilename env r1) (BackupTimeLocation (opts r1)) w1"
      using f assms(2) by (simp add: backupName_def newFilename_def)
    have c1: "c = canonical env r1"
      using f assms(3) by (simp add: canonical_def newFilename_def)
    from openNew_fails [OF o b c1] f show ?thesis by auto
  qed
qed

text \<open>
  C9. Under the direct strategy, when the write to the active file succeeds and the
  rotation that follows it fails, \<open>Write\<close> returns count 0 with the error of the
  rotation, although the tracked size has grown by the length of the write and the
  bytes are in the file, which is still the canonical file or already the backup the
  rotation renamed it to. The file handle is left nil.
\<close>

theorem direct_write_rotation_error:
  assumes strat: "RotateStrategy (opts r) = DirectRotateStrategy"
    and guard: "\<not> (0 < FileMaxSize (opts r) \<and> FileMaxSize (opts r) < int (length p))"
    and h: "file' r = Some (canonical env r)"
    and ex: "map_of (dir w) (canonical env r) = Some (RegFile old m)"
    and wr: "\<not> flt (OpWrite (canonical env r) (length p))"
    and rot: "rotate env flt (r\<lparr>size' := size' r + int (length p)\<rparr>)
               (w\<lparr>dir := AList.update (canonical env r) (RegFile (old @ p) m) (dir w),
                  trace := trace w @ [OpWrite (canonical env r) (length p)]\<rparr>) = (Some e, r2, w2)"
  shows "Write env flt r p w = ((0, Some e), r2, w2)
       \<and> size' r2 = size' r + int (length p)
       \<and> file' r2 = None
       \<and> (map_of (dir w2) (canonical env r) = Some (RegFile (old @ p) m)
          \<or> map_of (dir w2)
               (backupName env r (newFilename env r) (BackupTimeLocation (opts r)) w) =
             Some (RegFile (old @ p) m))"
proof -
  define c where "c = canonical env r"
  define bn where "bn = backupName env r (newFilename env r) (BackupTimeLocation (opts r)) w"
  define r1 where "r1 = r\<lparr>size' := size' r + int (length p)\<rparr>"
  define w1 where "w1 = w\<lparr>dir := AList.update c (RegFile (old @ p) m) (dir w),
                  trace := trace w @ [OpWrite c (length p)]\<rparr>"
  have wf: "write_file flt r p w = ((int (length p), None), r1, w1)"
    unfolding r1_def w1_def c_def using h wr ex by (rule write_file_open)
  have rot': "rotate env flt r1 w1 = (Some e, r2, w2)"
    using rot by (simp add: r1_def w1_def c_def)
  have W: "Write env flt r p w = ((0, Some e), r2, w2)"
    using strat guard wf rot'
    by (auto simp: Write_def Write_direct_def DirectRotateStrategy_def SizeRotateStrategy_def)
  have b1: "bn = backupName env r1 (newFilename env r1) (BackupTimeLocation (opts r1)) w1"
    by (simp add: bn_def r1_def w1_def backupName_def newFilename_def)
  have c1: "c = canonical env r1"
    by (simp add: c_def r1_def canonical_def newFilename_def)
  note f = rotate_fails [OF rot' b1 c1]
  have look: "map_of (dir w1) c = Some (RegFile (old @ p) m)"
    by (simp add: w1_def update_conv')
  from f look have "map_of (dir w2) c = Some (RegFile (old @ p) m)
      \<or> map_of (dir w2) bn = Some (RegFile (old @ p) m)"
    by (auto simp: update_conv')
  with W f show ?thesis
    by (simp add: r1_def c_def bn_def)
qed

text \<open>
  A five-byte write under the direct strategy whose rotation fails at the rename: the
  bytes are in \<open>server.log\<close>, the tracked size is 5, and \<open>Write\<close> returns 0 and the error.
\<close>

theorem direct_write_rotation_error_witness:
  "Write stdenv renameFails exDirect ''hello'' exWorld =
     ((0, Some (Errorf ''can't rename log file: %w'' []
                  (OsError (OpRename ''server.log'' ''server-2016-11-04T18-30-00.000.log'')))),
      exDirect\<lparr>size' := 5, file' := None\<rparr>,
      exWorld\<lparr>dir := [(''server.log'', RegFile ''hello'' 384)],
              trace := trace exWorld @
                [OpWrite ''server.log'' 5, OpClose ''server.log'', OpMkdirAll,
                 OpStat ''server.log'',
                 OpRename ''server.log'' ''server-2016-11-04T18-30-00.000.log'']\<rparr>)
   \<and> size' (exDirect\<lparr>size' := 5, file' := None\<rparr>) = size' exDirect + 5
   \<and> map_of [(''server.log'', RegFile ''hello'' 384)] ''server.log'' = Some (RegFile ''hello'' 384)"
proof -
  have c: "canonical stdenv exDirect = ''server.log''"
    by (simp add: canonical_def newFilename_def example_defs Base_example)
  have strat: "RotateStrategy (opts exDirect) = DirectRotateStrategy"
    and guard: "\<not> (0 < FileMaxSize (opts exDirect)
                  \<and> FileMaxSize (opts exDirect) < int (length ''hello''))"
    and h: "file' exDirect = Some (canonical stdenv exDirect)"
    and ex: "map_of (dir exWorld) (canonical stdenv exDirect) = Some (RegFile [] 384)"
    and wr: "\<not> renameFails (OpWrite (canonical stdenv exDirect) (length ''hello''))"
    unfolding c by (simp_all add: example_defs)
  have rot: "rotate stdenv renameFails (exDirect\<lparr>size' := size' exDirect + int (length ''hello'')\<rparr>)
       (exWorld\<lparr>dir := AList.update (canonical stdenv exDirect) (RegFile ([] @ ''hello'') 384)
                          (dir exWorld),
                trace := trace exWorld @ [OpWrite (canonical stdenv exDirect) (length ''hello'')]\<rparr>) =
     (Some (Errorf ''can't rename log file: %w'' []
              (OsError (OpRename ''server.log'' ''server-2016-11-04T18-30-00.000.log''))),
      exDirect\<lparr>size' := 5, file' := None\<rparr>,
      exWorld\<lparr>dir := [(''server.log'', RegFile ''hello'' 384)],
              trace := trace exWorld @
                [OpWrite ''server.log'' 5, OpClose ''server.log'', OpMkdirAll,
                 OpStat ''server.log'',
                 OpRename ''server.log'' ''server-2016-11-04T18-30-00.000.log'']\<rparr>)"
    unfolding c
    by (simp add: os_defs write_path_defs example_defs Let_def Base_example Ext_example
        format_exTime)
  from direct_write_rotation_error [OF strat guard h ex wr rot]
  show ?thesis by (simp add: example_defs)
qed

subsection \<open>The write after a failed rotation\<close>















subsection \<open>Compressing a backup\<close>

lemmas compress_defs = compressLogFile_def compress_open_dst_def compress_copy_def
  compress_gz_close_def compress_close_dst_def compress_close_src_def compress_remove_src_def
  compress_abort_def compress_early_def

lemma compress_source_intact:
  assumes "src \<noteq> dst" and "map_of (dir w) src = Some (RegFile d m)"
    and "compressLogFile env flt src dst w = (Some e, w')"
  shows "map_of (dir w') src = Some (RegFile d m)"
  using assms
  by (auto simp: compress_defs os_defs Let_def update_conv' delete_conv'
      split: if_splits option.splits node.splits)

lemma compress_success:
  assumes "src \<noteq> dst" and "map_of (dir w) src = Some (RegFile d m)"
    and "compressLogFile env flt src dst w = (None, w')"
  shows "map_of (dir w') src = None
       \<and> (\<exists>m'. map_of (dir w') dst = Some (RegFile (gzbody env d @ gztrailer env d) m'))
       \<and> trace w' = trace w @
            [OpOpen src, OpStat src, OpChown dst, OpOpenFile dst, OpCopy src dst,
             OpGzClose dst, OpClose dst, OpClose src, OpRemove src, OpClose dst, OpClose src]"
  using assms
  by (auto simp: compress_defs os_defs Let_def update_conv' delete_conv'
      split: if_splits option.splits node.splits)

lemma compress_partial_removed:
  assumes "src \<noteq> dst"
    and "compressLogFile env flt src dst w =
           (Some (Errorf ''failed to compress log file: %w'' [] e), w')"
    and "\<not> flt (OpRemove dst)"
  shows "map_of (dir w') dst = None"
  using assms
  by (auto simp: compress_defs os_defs Let_def update_conv' delete_conv'
      split: if_splits option.splits node.splits)

lemma compress_early_unchanged:
  assumes "compressLogFile env flt src dst w = (Some e, w')"
    and "\<forall>e0. e \<noteq> Errorf ''failed to compress log file: %w'' [] e0"
  shows "dir w' = dir w"
  using assms
  by (auto simp: compress_defs os_defs Let_def
      split: if_splits option.splits node.splits)

lemma compress_no_remove_before:
  assumes "compressLogFile env flt src dst w = (res, w')"
    and "flt (OpCopy src dst) \<or> flt (OpGzClose dst) \<or> flt (OpClose dst)"
    and "src \<noteq> dst"
  shows "OpRemove src \<notin> set (drop (length (trace w)) (trace w'))"
  using assms
  by (auto simp: compress_defs os_defs Let_def
      split: if_splits option.splits node.splits)

text \<open>
  C5. Compressing an existing backup into a different name. When \<open>compressLogFile\<close>
  succeeds, its system calls are, in order: open and stat the source, create the
  destination, copy, close the gzip writer, close the destination, close the source, and
  only then remove the source; the destination holds the whole gzip stream and the
  source is gone. When the copy, the closing of the gzip writer or the closing of the
  destination fails, no removal of the source is issued. Whenever an error is returned
  the source is as it was. An error from a step after the destination was opened is
  wrapped as a compression failure, and the destination is then removed (it is absent
  afterwards unless that removal itself fails); any other error comes from a step before
  the destination was created and leaves the directory unchanged.
\<close>

theorem compress_keeps_source_until_done:
  assumes neq: "src \<noteq> dst"
    and ex: "map_of (dir w) src = Some (RegFile d m)"
    and run: "compressLogFile env flt src dst w = (res, w')"
  shows "(res = None \<longrightarrow>
            map_of (dir w') src = None
          \<and> (\<exists>m'. map_of (dir w') dst = Some (RegFile (gzbody env d @ gztrailer env d) m'))
          \<and> trace w' = trace w @
               [OpOpen src, OpStat src, OpChown dst, OpOpenFile dst, OpCopy src dst,
                OpGzClose dst, OpClose dst, OpClose src, OpRemove src, OpClose dst,
                OpClose src])
       \<and> (flt (OpCopy src dst) \<or> flt (OpGzClose dst) \<or> flt (OpClose dst) \<longrightarrow>
            OpRemove src \<notin> set (drop (length (trace w)) (trace w')))
       \<and> (res \<noteq> None \<longrightarrow> map_of (dir w') src = Some (RegFile d m))
       \<and> (\<forall>e. res = Some (Errorf ''failed to compress log file: %w'' [] e)
               \<and> \<not> flt (OpRemove dst) \<longrightarrow> map_of (dir w') dst = None)
       \<and> (res \<noteq> None \<and> (\<forall>e. res \<noteq> Some (Errorf ''failed to compress log file: %w'' [] e))
            \<longrightarrow> dir w' = dir w)"
proof (intro conjI impI allI)
  assume "res = None"
  with run have r: "compressLogFile env flt src dst w = (None, w')" by simp
  from compress_success [OF neq ex r]
  show "map_of (dir w') src = None"
    and "\<exists>m'. map_of (dir w') dst = Some (RegFile (gzbody env d @ gztrailer env d) m')"
    and "trace w' = trace w @
               [OpOpen src, OpStat src, OpChown dst, OpOpenFile dst, OpCopy src dst,
                OpGzClose dst, OpClose dst, OpClose src, OpRemove src, OpClose dst,
                OpClose src]"
    by simp_all
next
  assume "flt (OpCopy src dst) \<or> flt (OpGzClose dst) \<or> flt (OpClose dst)"
  with run show "OpRemove src \<notin> set (drop (length (trace w)) (trace w'))"
    using neq by (rule compress_no_remove_before)
next
  assume "res \<noteq> None"
  then obtain e where "res = Some e" by auto
  with run have "compressLogFile env flt src dst w = (Some e, w')" by simp
  with neq ex show "map_of (dir w') src = Some (RegFile d m)"
    by (rule compress_source_intact)
next
  fix e
  assume a: "res = Some (Errorf ''failed to compress log file: %w'' [] e) \<and> \<not> flt (OpRemove dst)"
  with run have r: "compressLogFile env flt src dst w =
      (Some (Errorf ''failed to compress log file: %w'' [] e), w')" by simp
  from a have nr: "\<not> flt (OpRemove dst)" by simp
  from neq r nr show "map_of (dir w') dst = None"
    by (rule compress_partial_removed)
next
  assume a: "res \<noteq> None \<and> (\<forall>e. res \<noteq> Some (Errorf ''failed to compress log file: %w'' [] e))"
  then obtain e where e: "res = Some e" by auto
  with run have r: "compressLogFile env flt src dst w = (Some e, w')" by simp
  from a e have "\<forall>e0. e \<noteq> Errorf ''failed to compress log file: %w'' [] e0" by auto
  with r show "dir w' = dir w" by (rule compress_early_unchanged)
qed

lemma compress_gzCloseFails_example:
  "compressLogFile stdenv gzCloseFails exSrc exDst exMillWorld =
     (Some (Errorf ''failed to compress log file: %w'' [] (OsError (OpGzClose exDst))),
      exMillWorld\<lparr>trace := [OpOpen exSrc, OpStat exSrc, OpChown exDst, OpOpenFile exDst,
                               OpCopy exSrc exDst, OpGzClose exDst, OpRemove exDst,
                               OpClose exDst, OpClose exSrc]\<rparr>)"
  by code_simp

lemma compress_nofault_example:
  "compressLogFile stdenv nofault exSrc exDst exMillWorld =
     (None,
      \<lparr>dir = [(''notes.txt'', RegFile ''n'' 420),
              (''server-2016-11-01T10-00-00.000.log'', RegFile ''one'' 384),
              (''server-2016-11-02T10-00-00.000.log'', RegFile ''two'' 384),
              (''server-2016-11-04T10-00-00.000.log'', SubDir 493),
              (''server.log'', RegFile ''now'' 384),
              (exDst, RegFile ''gz:three:5'' 384)],
       now = exTime,
       trace = [OpOpen exSrc, OpStat exSrc, OpChown exDst, OpOpenFile exDst,
                OpCopy exSrc exDst, OpGzClose exDst, OpClose exDst, OpClose exSrc,
                OpRemove exSrc, OpClose exDst, OpClose exSrc]\<rparr>)"
  by code_simp

text \<open>
  Compressing the backup of the third of November: with a fault at closing the gzip
  writer the call fails, the compressed file is removed again and the backup is intact;
  without faults the backup is replaced by its compressed copy.
\<close>

theorem compress_keeps_source_until_done_witness:
  "fst (compressLogFile stdenv gzCloseFails exSrc exDst exMillWorld) =
     Some (Errorf ''failed to compress log file: %w'' [] (OsError (OpGzClose exDst)))
   \<and> map_of (dir (snd (compressLogFile stdenv gzCloseFails exSrc exDst exMillWorld))) exSrc =
       Some (RegFile ''three'' 384)
   \<and> map_of (dir (snd (compressLogFile stdenv gzCloseFails exSrc exDst exMillWorld))) exDst = None
   \<and> fst (compressLogFile stdenv nofault exSrc exDst exMillWorld) = None
   \<and> map_of (dir (snd (compressLogFile stdenv nofault exSrc exDst exMillWorld))) exSrc = None
   \<and> map_of (dir (snd (compressLogFile stdenv nofault exSrc exDst exMillWorld))) exDst =
       Some (RegFile ''gz:three:5'' 384)"
proof -
  have neq: "exSrc \<noteq> exDst"
    by (simp add: exSrc_def exDst_def)
  have ex: "map_of (dir exMillWorld) exSrc = Some (RegFile ''three'' 384)"
    by (simp add: exMillWorld_def exMillDir_def exSrc_def)
  have nr: "\<not> gzCloseFails (OpRemove exDst)"
    by (simp add: gzCloseFails_def)
  note a = compress_keeps_source_until_done [OF neq ex compress_gzCloseFails_example]
  note b = compress_keeps_source_until_done [OF neq ex compress_nofault_example]
  from a nr have "map_of (dir (snd (compressLogFile stdenv gzCloseFails exSrc exDst exMillWorld))) exSrc =
       Some (RegFile ''three'' 384)"
    and "map_of (dir (snd (compressLogFile stdenv gzCloseFails exSrc exDst exMillWorld))) exDst = None"
    unfolding compress_gzCloseFails_example by auto
  moreover from b have "map_of (dir (snd (compressLogFile stdenv nofault exSrc exDst exMillWorld))) exSrc = None"
    unfolding compress_nofault_example by simp
  moreover have "map_of (dir (snd (compressLogFile stdenv nofault exSrc exDst exMillWorld))) exDst =
       Some (RegFile ''gz:three:5'' 384)"
    unfolding compress_nofault_example by (simp add: exDst_def exSrc_def)
  ultimately show ?thesis
    by (simp add: compress_gzCloseFails_example compress_nofault_example)
qed

end
